theory Spec2Isabelle
  imports Main
begin

section \<open>Data model\<close>

text \<open>
  The authentication subsystem of the contact-book service: \<^verbatim>\<open>src/services/auth.py\<close>
  (password hashing, token issuing and decoding), \<^verbatim>\<open>src/repository/user.py\<close> (the user
  table) and \<^verbatim>\<open>src/routes/auth.py\<close> (the request handlers).

  Exceptions are values. \<open>HTTPException\<close> carries status code, detail and headers; the
  three \<open>JWT\<close> constructors are the exception classes of the token library
  (\<open>ExpiredSignatureError\<close> and \<open>JWTClaimsError\<close> are subclasses of \<open>JWTError\<close>);
  \<open>PasswordValueError\<close> is the error of the password library; the others are Python
  built-ins: \<open>KeyError\<close> for a missing dictionary key, \<open>AttributeError\<close> for an
  attribute read on \<open>None\<close>, \<open>OverflowError\<close> and \<open>ValueError\<close> for date arithmetic
  that leaves its range.
\<close>

datatype exn =
    HTTPException nat string "(string \<times> string) list"
  | JWTError
  | ExpiredSignatureError
  | JWTClaimsError
  | KeyError string
  | AttributeError
  | PasswordValueError
  | OverflowError
  | ValueError

text \<open>
  A token payload is a dictionary with the keys \<open>sub\<close>, \<open>iat\<close>, \<open>exp\<close> and \<open>scope\<close>, each
  of which may be absent. The subject and the scope are JSON strings or \<open>null\<close>; the two
  dates are whole seconds since the epoch, which is how the library serialises a
  \<open>datetime\<close> claim.
\<close>

datatype jval = JNull | JStr string

record claims =
  sub :: "jval option"
  iat :: "int option"
  exp :: "int option"
  scope :: "jval option"

text \<open>
  The signed string is kept symbolic: a token is either text that is no signed token at
  all, or a payload, the key that signed it and a spelling. The spelling tells apart the
  different strings that carry the same payload and the same signature (the base64 text
  of a signature can be written in more than one way); \<^verbatim>\<open>jwt.encode\<close> writes spelling
  0, and \<^verbatim>\<open>jwt.decode\<close> reads every spelling alike. Two tokens are the same string
  exactly when they are the same value of this type, which is what the handlers'
  comparisons \<^verbatim>\<open>!=\<close> of a presented token with a stored one look at.
\<close>

datatype token = Malformed string | Signed string claims nat

text \<open>A row of the \<open>users\<close> table (\<^verbatim>\<open>class User\<close>); \<open>user_id\<close> is the primary key \<open>id\<close>.\<close>

record user =
  user_id :: nat
  username :: string
  email :: string
  email_confirm :: bool
  password :: string
  avatar :: "string option"
  refresh_token :: "token option"
  password_reset_token :: "token option"

type_synonym db = "user list"

text \<open>The request bodies \<^verbatim>\<open>UserModel\<close> and \<^verbatim>\<open>ResetPassword\<close> of \<^verbatim>\<open>src/schemas.py\<close>.\<close>

record user_model =
  body_username :: string
  body_email :: string
  body_password :: string

record reset_password =
  reset_password_token :: token
  new_password :: string
  confirm_password :: string

text \<open>
  A number passed as \<open>expires_delta\<close> (\<^verbatim>\<open>Optional[float]\<close>; an \<open>int\<close> is accepted
  where a \<open>float\<close> is expected): a whole number, a finite number \<open>m / 2 ^ e\<close> that is
  not whole, or one of the three special values.
\<close>

datatype pyfloat = Whole int | Fractional int nat | NaN | PosInf | NegInf

text \<open>
  What the code takes from its environment: the signing secret of \<^verbatim>\<open>settings\<close>; the
  bcrypt context of \<^verbatim>\<open>AuthPassword\<close>, whose \<open>hash\<close> (given the salt it draws) and
  \<open>verify\<close> return a value or raise; the avatar link computed from an email; and the
  length in microseconds that \<^verbatim>\<open>timedelta\<close> computes, in floating point, for a number
  of days that is not whole (or the error it raises).
\<close>

record app =
  secret_key :: string
  pwd_hash :: "string \<Rightarrow> string \<Rightarrow> exn + string"
  pwd_verify :: "string \<Rightarrow> string \<Rightarrow> exn + bool"
  gravatar :: "string \<Rightarrow> string"
  fractional_days :: "int \<Rightarrow> nat \<Rightarrow> exn + int"

text \<open>What a handler returns on success.\<close>

datatype response =
    RUser user
  | RToken token token string
  | RMessage string
  | RResetToken token
  | RText string

text \<open>
  The identity that \<^verbatim>\<open>get_current_user\<close> returns: the integer key read from the table,
  or the decoded text of the cached key.
\<close>

datatype current_user = IntId nat | StrId nat

section \<open>Clock and dates\<close>

text \<open>
  A clock reading \<open>now\<close> is the value of \<^verbatim>\<open>datetime.utcnow()\<close> in microseconds since
  the epoch; the readings taken while one request is handled are taken to be one
  reading. \<open>timegm\<close> is the whole second of a date, which is what the token library
  writes into a payload and compares with. A \<open>datetime\<close> lies between the first
  microsecond of year 1 and the last of year 9999, and adding a \<open>timedelta\<close> that leaves
  this range raises \<open>OverflowError\<close>.
\<close>

definition timegm :: "int \<Rightarrow> int" where
  "timegm dt = dt div 1000000"

definition datetime_min :: int where
  "datetime_min = - 62135596800000000"

definition datetime_max :: int where
  "datetime_max = 253402300799999999"

definition datetime_add :: "int \<Rightarrow> int \<Rightarrow> exn + int" where
  "datetime_add dt td =
     (if dt + td < datetime_min \<or> datetime_max < dt + td then Inl OverflowError
      else Inr (dt + td))"

text \<open>
  \<^verbatim>\<open>timedelta(x)\<close>: the first positional argument counts days. More than 999999999
  days in either direction and the infinities raise \<open>OverflowError\<close>, \<open>NaN\<close> raises
  \<open>ValueError\<close>. \<open>truthy\<close> is the test \<^verbatim>\<open>if expires_delta:\<close> on a number: only zero
  (\<open>Whole 0\<close>, which stands for \<open>0\<close>, \<open>0.0\<close> and \<open>-0.0\<close>) is false.
\<close>

definition timedelta :: "app \<Rightarrow> pyfloat \<Rightarrow> exn + int" where
  "timedelta a x =
     (case x of
        Whole n \<Rightarrow>
          if n < - 999999999 \<or> 999999999 < n then Inl OverflowError
          else Inr (n * 86400000000)
      | Fractional m e \<Rightarrow> fractional_days a m e
      | NaN \<Rightarrow> Inl ValueError
      | PosInf \<Rightarrow> Inl OverflowError
      | NegInf \<Rightarrow> Inl OverflowError)"

definition truthy :: "pyfloat \<Rightarrow> bool" where
  "truthy x = (x \<noteq> Whole 0)"

section \<open>The token library\<close>

text \<open>
  \<^verbatim>\<open>jwt.encode\<close> signs the payload with the key. \<^verbatim>\<open>jwt.decode\<close> at the clock reading
  \<open>now\<close> rejects text that is no token and a token signed with another key
  (\<open>JWTError\<close>), a token whose \<open>exp\<close> is less than the whole second of \<open>now\<close>
  (\<open>ExpiredSignatureError\<close>) and a subject that is present but not a string
  (\<open>JWTClaimsError\<close>); otherwise it returns the payload.
\<close>

definition jwt_encode :: "claims \<Rightarrow> string \<Rightarrow> token" where
  "jwt_encode to_encode key = Signed key to_encode 0"

fun jwt_decode :: "int \<Rightarrow> token \<Rightarrow> string \<Rightarrow> exn + claims" where
  "jwt_decode now (Malformed s) key = Inl JWTError"
| "jwt_decode now (Signed k payload spelling) key =
     (if k \<noteq> key then Inl JWTError
      else if (case exp payload of None \<Rightarrow> False | Some e \<Rightarrow> e < timegm now)
        then Inl ExpiredSignatureError
      else if sub payload = Some JNull then Inl JWTClaimsError
      else Inr payload)"

section \<open>src/services/auth.py\<close>

text \<open>
  \<^verbatim>\<open>pwd_context.hash\<close> and \<^verbatim>\<open>pwd_context.verify\<close>: whatever else the context raises,
  bcrypt refuses a password that contains a NUL byte with \<open>PasswordValueError\<close>.
\<close>

definition get_hash_password :: "app \<Rightarrow> string \<Rightarrow> string \<Rightarrow> exn + string" where
  "get_hash_password a salt pw =
     (case pwd_hash a salt pw of
        Inl err \<Rightarrow> Inl err
      | Inr digest \<Rightarrow> if CHR 0x00 \<in> set pw then Inl PasswordValueError else Inr digest)"

definition verify_password :: "app \<Rightarrow> string \<Rightarrow> string \<Rightarrow> exn + bool" where
  "verify_password a pw hashed_password =
     (case pwd_verify a pw hashed_password of
        Inl err \<Rightarrow> Inl err
      | Inr ok \<Rightarrow> if CHR 0x00 \<in> set pw then Inl PasswordValueError else Inr ok)"

text \<open>
  The value of \<^verbatim>\<open>expire\<close> that the two branches of \<^verbatim>\<open>if expires_delta:\<close> compute:
  \<open>None\<close> and zero are false and take the default lifetime \<open>dflt\<close> (in microseconds).
\<close>

definition expire_at :: "app \<Rightarrow> int \<Rightarrow> pyfloat option \<Rightarrow> int \<Rightarrow> exn + int" where
  "expire_at a now expires_delta dflt =
     (case expires_delta of
        None \<Rightarrow> datetime_add now dflt
      | Some x \<Rightarrow>
          if truthy x then
            (case timedelta a x of
               Inl err \<Rightarrow> Inl err
             | Inr td \<Rightarrow> datetime_add now td)
          else datetime_add now dflt)"

definition create_access_token ::
    "app \<Rightarrow> int \<Rightarrow> claims \<Rightarrow> pyfloat option \<Rightarrow> exn + token" where
  "create_access_token a now data expires_delta =
     (case expire_at a now expires_delta (30 * 60 * 1000000) of
        Inl err \<Rightarrow> Inl err
      | Inr expire \<Rightarrow>
          (let to_encode = data\<lparr>iat := Some (timegm now), exp := Some (timegm expire),
                                scope := Some (JStr ''access_token'')\<rparr>
           in Inr (jwt_encode to_encode (secret_key a))))"

definition create_refresh_token ::
    "app \<Rightarrow> int \<Rightarrow> claims \<Rightarrow> pyfloat option \<Rightarrow> exn + token" where
  "create_refresh_token a now data expires_delta =
     (case expire_at a now expires_delta (30 * 60 * 1000000) of
        Inl err \<Rightarrow> Inl err
      | Inr expire \<Rightarrow>
          (let to_encode = data\<lparr>iat := Some (timegm now), exp := Some (timegm expire),
                                scope := Some (JStr ''refresh_token'')\<rparr>
           in Inr (jwt_encode to_encode (secret_key a))))"

definition create_reset_password_token ::
    "app \<Rightarrow> int \<Rightarrow> claims \<Rightarrow> pyfloat option \<Rightarrow> exn + token" where
  "create_reset_password_token a now data expires_delta =
     (case expire_at a now expires_delta (5 * 60 * 1000000) of
        Inl err \<Rightarrow> Inl err
      | Inr expire \<Rightarrow>
          (let to_encode = data\<lparr>iat := Some (timegm now), exp := Some (timegm expire),
                                scope := Some (JStr ''reset_password_token'')\<rparr>
           in Inr (jwt_encode to_encode (secret_key a))))"

definition create_email_token :: "app \<Rightarrow> int \<Rightarrow> claims \<Rightarrow> exn + token" where
  "create_email_token a now data =
     (case datetime_add now (60 * 60 * 1000000) of
        Inl err \<Rightarrow> Inl err
      | Inr expire \<Rightarrow>
          (let to_encode = data\<lparr>iat := Some (timegm now), exp := Some (timegm expire)\<rparr>
           in Inr (jwt_encode to_encode (secret_key a))))"

text \<open>The dictionary \<^verbatim>\<open>{"sub": email}\<close> that every caller passes as \<open>data\<close>.\<close>

definition sub_data :: "string \<Rightarrow> claims" where
  "sub_data e = \<lparr>sub = Some (JStr e), iat = None, exp = None, scope = None\<rparr>"

definition credentials_exception :: exn where
  "credentials_exception =
     HTTPException 401 ''Could not validate credentials'' [(''WWW-Authenticate'', ''Bearer'')]"

text \<open>
  Each scoped decoder is a \<^verbatim>\<open>try\<close> block (decode, compare the scope, read the subject)
  under a bare \<^verbatim>\<open>except\<close> that replaces whatever was raised, the block's own
  exceptions included. The \<open>_try\<close> definitions are the blocks; a missing dictionary key
  raises \<open>KeyError\<close>.
\<close>

definition current_user_try :: "app \<Rightarrow> int \<Rightarrow> token \<Rightarrow> exn + string" where
  "current_user_try a now tok =
     (case jwt_decode now tok (secret_key a) of
        Inl err \<Rightarrow> Inl err
      | Inr payload \<Rightarrow>
          (case scope payload of
             None \<Rightarrow> Inl (KeyError ''scope'')
           | Some sc \<Rightarrow>
               if sc = JStr ''access_token'' then
                 (case sub payload of
                    None \<Rightarrow> Inl (KeyError ''sub'')
                  | Some JNull \<Rightarrow> Inl credentials_exception
                  | Some (JStr e) \<Rightarrow> Inr e)
               else Inl credentials_exception))"

definition current_user_email :: "app \<Rightarrow> int \<Rightarrow> token \<Rightarrow> exn + string" where
  "current_user_email a now tok =
     (case current_user_try a now tok of
        Inl err \<Rightarrow> Inl credentials_exception
      | Inr e \<Rightarrow> Inr e)"

definition refresh_token_try :: "app \<Rightarrow> int \<Rightarrow> token \<Rightarrow> exn + string" where
  "refresh_token_try a now tok =
     (case jwt_decode now tok (secret_key a) of
        Inl err \<Rightarrow> Inl err
      | Inr payload \<Rightarrow>
          (case scope payload of
             None \<Rightarrow> Inl (KeyError ''scope'')
           | Some sc \<Rightarrow>
               if sc = JStr ''refresh_token'' then
                 (case sub payload of
                    None \<Rightarrow> Inl (KeyError ''sub'')
                  | Some JNull \<Rightarrow> Inl (HTTPException 401 ''Invalid Email'' [])
                  | Some (JStr e) \<Rightarrow> Inr e)
               else Inl (HTTPException 401 ''Invalid scope for token'' [])))"

definition refresh_token_email :: "app \<Rightarrow> int \<Rightarrow> token \<Rightarrow> exn + string" where
  "refresh_token_email a now tok =
     (case refresh_token_try a now tok of
        Inl err \<Rightarrow> Inl (HTTPException 401 ''Could not validate credentials'' [])
      | Inr e \<Rightarrow> Inr e)"

definition reset_token_try :: "app \<Rightarrow> int \<Rightarrow> token \<Rightarrow> exn + string" where
  "reset_token_try a now tok =
     (case jwt_decode now tok (secret_key a) of
        Inl err \<Rightarrow> Inl err
      | Inr payload \<Rightarrow>
          (case scope payload of
             None \<Rightarrow> Inl (KeyError ''scope'')
           | Some sc \<Rightarrow>
               if sc = JStr ''reset_password_token'' then
                 (case sub payload of
                    None \<Rightarrow> Inl (KeyError ''sub'')
                  | Some JNull \<Rightarrow> Inl (HTTPException 401 ''Invalid Email'' [])
                  | Some (JStr e) \<Rightarrow> Inr e)
               else Inl (HTTPException 401 ''Invalid scope for token'' [])))"

definition reset_token_email :: "app \<Rightarrow> int \<Rightarrow> token \<Rightarrow> exn + string" where
  "reset_token_email a now tok =
     (case reset_token_try a now tok of
        Inl err \<Rightarrow> Inl (HTTPException 401 ''Could not validate credentials'' [])
      | Inr e \<Rightarrow> Inr e)"

text \<open>
  \<^verbatim>\<open>get_email_from_token\<close> reads the subject without looking at the scope, and its
  handler catches \<open>JWTError\<close> only: a missing subject leaves as \<open>KeyError\<close>. The
  library never returns a payload whose subject is \<open>null\<close>, so the third case of the
  subject is not reached.
\<close>

fun is_jwt_error :: "exn \<Rightarrow> bool" where
  "is_jwt_error JWTError = True"
| "is_jwt_error ExpiredSignatureError = True"
| "is_jwt_error JWTClaimsError = True"
| "is_jwt_error _ = False"

definition get_email_from_token :: "app \<Rightarrow> int \<Rightarrow> token \<Rightarrow> exn + string" where
  "get_email_from_token a now tok =
     (case jwt_decode now tok (secret_key a) of
        Inl err \<Rightarrow>
          if is_jwt_error err
          then Inl (HTTPException 422 ''Invalid token for email verification'' [])
          else Inl err
      | Inr payload \<Rightarrow>
          (case sub payload of
             None \<Rightarrow> Inl (KeyError ''sub'')
           | Some (JStr e) \<Rightarrow> Inr e
           | Some JNull \<Rightarrow> Inl JWTClaimsError))"

section \<open>src/repository/user.py\<close>

text \<open>
  The table is the list of its rows. A query by email returns the first matching row; an
  update through the returned object writes the changed column of the row with that
  primary key. The key of a new row is assigned by the database.
\<close>

definition get_user_by_email :: "string \<Rightarrow> db \<Rightarrow> user option" where
  "get_user_by_email e d = find (\<lambda>r. email r = e) d"

definition get_user_by_id :: "nat \<Rightarrow> db \<Rightarrow> user option" where
  "get_user_by_id i d = find (\<lambda>r. user_id r = i) d"

definition fresh_id :: "db \<Rightarrow> nat" where
  "fresh_id d = Suc (fold max (map user_id d) 0)"

definition add_user :: "app \<Rightarrow> user_model \<Rightarrow> db \<Rightarrow> user \<times> db" where
  "add_user a body d =
     (let u = \<lparr>user_id = fresh_id d,
                username = body_username body,
                email = body_email body,
                email_confirm = False,
                password = body_password body,
                avatar = Some (gravatar a (body_email body)),
                refresh_token = None,
                password_reset_token = None\<rparr>
      in (u, d @ [u]))"

definition update_token :: "user \<Rightarrow> token option \<Rightarrow> db \<Rightarrow> db" where
  "update_token u t d =
     map (\<lambda>r. if user_id r = user_id u then r\<lparr>refresh_token := t\<rparr> else r) d"

definition update_reset_token :: "user \<Rightarrow> token option \<Rightarrow> db \<Rightarrow> db" where
  "update_reset_token u t d =
     map (\<lambda>r. if user_id r = user_id u then r\<lparr>password_reset_token := t\<rparr> else r) d"

definition update_password :: "user \<Rightarrow> string \<Rightarrow> db \<Rightarrow> db" where
  "update_password u pw d =
     map (\<lambda>r. if user_id r = user_id u then r\<lparr>password := pw\<rparr> else r) d"

definition verify_email :: "user \<Rightarrow> db \<Rightarrow> db" where
  "verify_email u d =
     map (\<lambda>r. if user_id r = user_id u then r\<lparr>email_confirm := True\<rparr> else r) d"

section \<open>The identity cache and the route guard\<close>

text \<open>
  \<^verbatim>\<open>r.get\<close> finds a key that is present and not yet expired; \<^verbatim>\<open>r.set\<close> stores a value
  with no expiry; \<^verbatim>\<open>r.expire\<close> gives a present key a lifetime in seconds. A key holds a
  value and, when it has one, the clock reading at which it expires.
\<close>

type_synonym redis = "string \<rightharpoonup> (nat \<times> int option)"

definition r_get :: "int \<Rightarrow> redis \<Rightarrow> string \<Rightarrow> nat option" where
  "r_get now r k =
     (case r k of
        None \<Rightarrow> None
      | Some (v, None) \<Rightarrow> Some v
      | Some (v, Some t) \<Rightarrow> if now < t then Some v else None)"

definition r_set :: "redis \<Rightarrow> string \<Rightarrow> nat \<Rightarrow> redis" where
  "r_set r k v = r(k \<mapsto> (v, None))"

definition r_expire :: "int \<Rightarrow> redis \<Rightarrow> string \<Rightarrow> int \<Rightarrow> redis" where
  "r_expire now r k secs =
     (case r k of
        None \<Rightarrow> r
      | Some (v, t) \<Rightarrow> r(k \<mapsto> (v, Some (now + secs * 1000000))))"

text \<open>
  \<^verbatim>\<open>get_current_user\<close>: after the \<^verbatim>\<open>try\<close> block, a cache miss reads the row and takes
  its \<open>id\<close> before anything is tested, so a missing row raises \<open>AttributeError\<close>; the
  test \<^verbatim>\<open>if user is None\<close> that follows looks at the integer key, which is never \<open>None\<close>.
\<close>

definition get_current_user ::
    "app \<Rightarrow> int \<Rightarrow> token \<Rightarrow> redis \<Rightarrow> db \<Rightarrow> (exn + current_user) \<times> redis" where
  "get_current_user a now tok r d =
     (case current_user_email a now tok of
        Inl err \<Rightarrow> (Inl err, r)
      | Inr e \<Rightarrow>
          (case r_get now r e of
             None \<Rightarrow>
               (case get_user_by_email e d of
                  None \<Rightarrow> (Inl AttributeError, r)
                | Some u \<Rightarrow>
                    (Inr (IntId (user_id u)), r_expire now (r_set r e (user_id u)) e 60))
           | Some v \<Rightarrow> (Inr (StrId v), r)))"

section \<open>src/routes/auth.py\<close>

text \<open>
  A handler runs at the clock reading \<open>now\<close> against the table and returns its result
  with the table it leaves; an exception that no handler catches is its result. The
  confirmation mail that \<^verbatim>\<open>sign_up\<close> queues runs after the response and does not touch
  the table.
\<close>

definition sign_up :: "app \<Rightarrow> string \<Rightarrow> user_model \<Rightarrow> db \<Rightarrow> (exn + response) \<times> db" where
  "sign_up a salt body d =
     (case get_user_by_email (body_email body) d of
        Some check_user \<Rightarrow> (Inl (HTTPException 409 ''This email is already in use'' []), d)
      | None \<Rightarrow>
          (case get_hash_password a salt (body_password body) of
             Inl err \<Rightarrow> (Inl err, d)
           | Inr hashed \<Rightarrow>
               (let body' = body\<lparr>body_password := hashed\<rparr>;
                    (new_user, d') = add_user a body' d
                in (Inr (RUser new_user), d'))))"

definition login :: "app \<Rightarrow> int \<Rightarrow> string \<Rightarrow> string \<Rightarrow> db \<Rightarrow> (exn + response) \<times> db" where
  "login a now form_username form_password d =
     (case get_user_by_email form_username d of
        None \<Rightarrow> (Inl (HTTPException 401 ''Invalid email'' []), d)
      | Some u \<Rightarrow>
          (case verify_password a form_password (password u) of
             Inl err \<Rightarrow> (Inl err, d)
           | Inr ok \<Rightarrow>
               if \<not> ok then (Inl (HTTPException 401 ''Invalid password'' []), d)
               else if \<not> email_confirm u then
                 (Inl (HTTPException 401 (''check '' @ email u @ '' to Confirm account'') []), d)
               else
                 (case create_access_token a now (sub_data (email u)) None of
                    Inl err \<Rightarrow> (Inl err, d)
                  | Inr access \<Rightarrow>
                      (case create_refresh_token a now (sub_data (email u)) None of
                         Inl err \<Rightarrow> (Inl err, d)
                       | Inr refresh \<Rightarrow>
                           (Inr (RToken access refresh ''bearer''),
                            update_token u (Some refresh) d)))))"

definition refresh_token_route :: "app \<Rightarrow> int \<Rightarrow> token \<Rightarrow> db \<Rightarrow> (exn + response) \<times> db" where
  "refresh_token_route a now tok d =
     (case refresh_token_email a now tok of
        Inl err \<Rightarrow> (Inl err, d)
      | Inr e \<Rightarrow>
          (case get_user_by_email e d of
             None \<Rightarrow> (Inl AttributeError, d)
           | Some u \<Rightarrow>
               if refresh_token u \<noteq> Some tok then
                 (Inl (HTTPException 401 ''Invalid refresh token'' []), update_token u None d)
               else
                 (case create_access_token a now (sub_data e) None of
                    Inl err \<Rightarrow> (Inl err, d)
                  | Inr access \<Rightarrow>
                      (case create_refresh_token a now (sub_data e) None of
                         Inl err \<Rightarrow> (Inl err, d)
                       | Inr refresh \<Rightarrow>
                           (Inr (RToken access refresh ''bearer''),
                            update_token u (Some refresh) d)))))"

definition confirmed_email :: "app \<Rightarrow> int \<Rightarrow> token \<Rightarrow> db \<Rightarrow> (exn + response) \<times> db" where
  "confirmed_email a now tok d =
     (case get_email_from_token a now tok of
        Inl err \<Rightarrow> (Inl err, d)
      | Inr e \<Rightarrow>
          (case get_user_by_email e d of
             None \<Rightarrow> (Inl (HTTPException 400 ''Verification error'' []), d)
           | Some u \<Rightarrow>
               if email_confirm u then (Inr (RMessage ''Your email is already confirmed''), d)
               else (Inr (RMessage ''Email confirmed''), verify_email u d)))"

definition password_reset_email :: "app \<Rightarrow> int \<Rightarrow> token \<Rightarrow> db \<Rightarrow> (exn + response) \<times> db" where
  "password_reset_email a now tok d =
     (case get_email_from_token a now tok of
        Inl err \<Rightarrow> (Inl err, d)
      | Inr e \<Rightarrow>
          (case get_user_by_email e d of
             None \<Rightarrow> (Inl AttributeError, d)
           | Some u \<Rightarrow>
               (case create_reset_password_token a now (sub_data (email u)) None of
                  Inl err \<Rightarrow> (Inl err, d)
                | Inr reset_token \<Rightarrow>
                    (Inr (RResetToken reset_token),
                     update_reset_token u (Some reset_token) d))))"

definition set_new_password ::
    "app \<Rightarrow> int \<Rightarrow> string \<Rightarrow> reset_password \<Rightarrow> db \<Rightarrow> (exn + response) \<times> db" where
  "set_new_password a now salt request d =
     (let tok = reset_password_token request in
      case reset_token_email a now tok of
        Inl err \<Rightarrow> (Inl err, d)
      | Inr e \<Rightarrow>
          (case get_user_by_email e d of
             None \<Rightarrow> (Inl AttributeError, d)
           | Some u \<Rightarrow>
               if password_reset_token u \<noteq> Some tok then
                 (Inl (HTTPException 401 ''Invalid reset token'' []), d)
               else if new_password request \<noteq> confirm_password request then
                 (Inl (HTTPException 401 ''passwords do not match'' []), d)
               else
                 (case get_hash_password a salt (new_password request) of
                    Inl err \<Rightarrow> (Inl err, d)
                  | Inr new_pw \<Rightarrow>
                      (Inr (RText ''password update successfully''),
                       update_reset_token u None (update_password u new_pw d)))))"

section \<open>A client that rotates its refresh token\<close>

text \<open>
  The client refreshes at the clock readings \<open>ts\<close>, each time presenting the refresh
  token it was given last, starting with \<open>tok\<close>. The result is the list of the refresh
  tokens it is given, in order, with the table that is left; it is \<open>None\<close> when one of
  the refreshes is refused.
\<close>

fun refresh_chain :: "app \<Rightarrow> token \<Rightarrow> int list \<Rightarrow> db \<Rightarrow> (token list \<times> db) option" where
  "refresh_chain a tok [] d = Some ([], d)"
| "refresh_chain a tok (t # ts) d =
     (case refresh_token_route a t tok d of
        (Inr (RToken access refresh ty), d') \<Rightarrow>
          (case refresh_chain a refresh ts d' of
             None \<Rightarrow> None
           | Some (toks, dn) \<Rightarrow> Some (refresh # toks, dn))
      | _ \<Rightarrow> None)"

section \<open>A concrete configuration\<close>

text \<open>
  A stand-in password context (the digest is the salt followed by the password, and
  verification compares the end of the digest), one confirmed account, and the tokens
  the issuers write for it, for evaluating the handlers on concrete requests. Times are
  given in whole seconds.
\<close>

definition seconds :: "int \<Rightarrow> int" where
  "seconds n = n * 1000000"

definition demo_verify :: "string \<Rightarrow> string \<Rightarrow> bool" where
  "demo_verify pw h = (drop (length h - length pw) h = pw \<and> length pw < length h)"

definition demo_app :: app where
  "demo_app = \<lparr>secret_key = ''secret'', pwd_hash = (\<lambda>salt pw. Inr (salt @ pw)),
                pwd_verify = (\<lambda>pw h. Inr (demo_verify pw h)),
                gravatar = (\<lambda>e. ''avatar/'' @ e),
                fractional_days = (\<lambda>m e. Inr (m * 86400000000 div 2 ^ e))\<rparr>"

definition demo_user :: "token option \<Rightarrow> token option \<Rightarrow> user" where
  "demo_user rt pt =
     \<lparr>user_id = 1, username = ''u'', email = ''a@x.com'', email_confirm = True,
      password = ''$2b$pw12345'', avatar = None, refresh_token = rt,
      password_reset_token = pt\<rparr>"

definition demo_token :: "string \<Rightarrow> string \<Rightarrow> int \<Rightarrow> int \<Rightarrow> token" where
  "demo_token e sc t life =
     Signed ''secret'' \<lparr>sub = Some (JStr e), iat = Some t, exp = Some (t + life),
                        scope = Some (JStr sc)\<rparr> 0"

definition demo_access :: "int \<Rightarrow> token" where
  "demo_access t = demo_token ''a@x.com'' ''access_token'' t 1800"

definition demo_refresh :: "int \<Rightarrow> token" where
  "demo_refresh t = demo_token ''a@x.com'' ''refresh_token'' t 1800"

definition demo_reset :: "int \<Rightarrow> token" where
  "demo_reset t = demo_token ''a@x.com'' ''reset_password_token'' t 300"

definition demo_new :: "bool \<Rightarrow> user" where
  "demo_new c = (demo_user None None)\<lparr>email_confirm := c, avatar := Some ''avatar/a@x.com''\<rparr>"

definition demo_body :: "string \<Rightarrow> user_model" where
  "demo_body pw = \<lparr>body_username = ''u'', body_email = ''a@x.com'', body_password = pw\<rparr>"

definition demo_request :: "string \<Rightarrow> reset_password" where
  "demo_request pw = \<lparr>reset_password_token = demo_reset 100, new_password = pw,
                       confirm_password = pw\<rparr>"

definition demo_payload :: "int \<Rightarrow> claims" where
  "demo_payload t = \<lparr>sub = Some (JStr ''a@x.com''), iat = Some t, exp = Some (t + 1800),
                      scope = Some (JStr ''access_token'')\<rparr>"

definition no_subject :: token where
  "no_subject = Signed ''secret'' \<lparr>sub = None, iat = Some 0, exp = Some 1800,
                                    scope = Some (JStr ''access_token'')\<rparr> 0"

definition ghost_access :: token where
  "ghost_access = demo_token ''ghost@x.com'' ''access_token'' 0 1800"

definition ghost_refresh :: token where
  "ghost_refresh = demo_token ''ghost@x.com'' ''refresh_token'' 0 1800"

definition ghost_reset :: token where
  "ghost_reset = demo_token ''ghost@x.com'' ''reset_password_token'' 0 300"

section \<open>Facts about the table, the clock and the decoders\<close>

lemmas token_defs = create_access_token_def create_refresh_token_def
  create_reset_password_token_def create_email_token_def expire_at_def datetime_add_def
  datetime_min_def datetime_max_def timedelta_def truthy_def jwt_encode_def sub_data_def
  timegm_def

lemmas decode_defs = refresh_token_email_def refresh_token_try_def reset_token_email_def
  reset_token_try_def current_user_email_def current_user_try_def get_email_from_token_def
  timegm_def

lemmas demo_defs = demo_app_def demo_user_def demo_token_def demo_access_def demo_refresh_def
  demo_reset_def demo_verify_def seconds_def

lemmas repo_defs = get_user_by_email_def update_token_def update_reset_token_def
  update_password_def verify_email_def

text \<open>An update that keeps every row's email does not change which row a query finds.\<close>

lemma find_map_email:
  assumes "\<And>r. email (f r) = email r"
  shows "find (\<lambda>r. email r = e) (map f d) = map_option f (find (\<lambda>r. email r = e) d)"
  by (induction d) (simp_all add: assms)

lemma get_user_by_email_update_token:
  "get_user_by_email e (update_token u t d) =
     map_option (\<lambda>r. if user_id r = user_id u then r\<lparr>refresh_token := t\<rparr> else r)
       (get_user_by_email e d)"
  unfolding get_user_by_email_def update_token_def
  by (rule find_map_email) simp

lemma get_user_by_email_email:
  "get_user_by_email e d = Some u \<Longrightarrow> email u = e"
  unfolding get_user_by_email_def by (auto simp: find_Some_iff)

lemma update_token_twice:
  "user_id u' = user_id u \<Longrightarrow> update_token u' t' (update_token u t d) = update_token u t' d"
  unfolding update_token_def by (induction d) auto

lemma get_user_by_email_update_reset_token:
  "get_user_by_email e (update_reset_token u t d) =
     map_option (\<lambda>r. if user_id r = user_id u then r\<lparr>password_reset_token := t\<rparr> else r)
       (get_user_by_email e d)"
  unfolding get_user_by_email_def update_reset_token_def
  by (rule find_map_email) simp

lemma get_user_by_email_update_password:
  "get_user_by_email e (update_password u pw d) =
     map_option (\<lambda>r. if user_id r = user_id u then r\<lparr>password := pw\<rparr> else r)
       (get_user_by_email e d)"
  unfolding get_user_by_email_def update_password_def
  by (rule find_map_email) simp

lemma get_user_by_email_None_filter:
  "get_user_by_email e d = None \<longleftrightarrow> filter (\<lambda>r. email r = e) d = []"
  unfolding get_user_by_email_def by (induction d) auto

lemma get_user_by_email_append:
  "get_user_by_email e (d @ [u]) =
     (case get_user_by_email e d of
        Some r \<Rightarrow> Some r
      | None \<Rightarrow> if email u = e then Some u else None)"
  unfolding get_user_by_email_def by (induction d) auto

text \<open>Whole seconds of a date that is moved by whole seconds.\<close>

lemma timegm_add_seconds: "timegm (t + n * 1000000) = timegm t + n"
  by (simp add: timegm_def)

text \<open>The default branch of the expiry adds the default lifetime, when that is a date.\<close>

lemma expire_at_None:
  "expire_at a t0 None dflt = Inr x \<Longrightarrow> x = t0 + dflt"
  by (simp add: expire_at_def datetime_add_def split: if_splits)

lemma expire_at_in_range:
  "datetime_min \<le> t0 + dflt \<Longrightarrow> t0 + dflt \<le> datetime_max \<Longrightarrow>
     expire_at a t0 None dflt = Inr (t0 + dflt)"
  by (simp add: expire_at_def datetime_add_def)

text \<open>
  Each scoped decoder returns an email exactly when the library accepts the token, the
  scope is the expected one and the subject is a string; its bare \<^verbatim>\<open>except\<close> leaves
  one error only.
\<close>

lemma refresh_token_email_iff:
  "refresh_token_email a now tok = Inr e \<longleftrightarrow>
     (\<exists>payload. jwt_decode now tok (secret_key a) = Inr payload
        \<and> scope payload = Some (JStr ''refresh_token'') \<and> sub payload = Some (JStr e))"
  unfolding refresh_token_email_def refresh_token_try_def
  by (auto split: sum.splits option.splits jval.splits)

lemma reset_token_email_iff:
  "reset_token_email a now tok = Inr e \<longleftrightarrow>
     (\<exists>payload. jwt_decode now tok (secret_key a) = Inr payload
        \<and> scope payload = Some (JStr ''reset_password_token'') \<and> sub payload = Some (JStr e))"
  unfolding reset_token_email_def reset_token_try_def
  by (auto split: sum.splits option.splits jval.splits)

lemma refresh_token_email_error:
  "refresh_token_email a now tok = Inl err \<Longrightarrow>
     err = HTTPException 401 ''Could not validate credentials'' []"
  unfolding refresh_token_email_def by (auto split: sum.splits)

lemma reset_token_email_error:
  "reset_token_email a now tok = Inl err \<Longrightarrow>
     err = HTTPException 401 ''Could not validate credentials'' []"
  unfolding reset_token_email_def by (auto split: sum.splits)

lemma refresh_token_email_not_decoded:
  "(\<nexists>p e. jwt_decode now tok (secret_key a) = Inr p
        \<and> scope p = Some (JStr ''refresh_token'') \<and> sub p = Some (JStr e)) \<Longrightarrow>
   refresh_token_email a now tok = Inl (HTTPException 401 ''Could not validate credentials'' [])"
proof (cases "refresh_token_email a now tok")
  case (Inl err)
  then show ?thesis using refresh_token_email_error [OF Inl] by simp
next
  case (Inr e)
  assume "\<nexists>p e. jwt_decode now tok (secret_key a) = Inr p
        \<and> scope p = Some (JStr ''refresh_token'') \<and> sub p = Some (JStr e)"
  with Inr show ?thesis unfolding refresh_token_email_iff by blast
qed

lemma refresh_refused_by_decoder:
  "refresh_token_email a now tok = Inl err \<Longrightarrow>
   refresh_token_route a now tok d =
     (Inl (HTTPException 401 ''Could not validate credentials'' []), d)"
  using refresh_token_email_error [of a now tok err] by (simp add: refresh_token_route_def)

lemma reset_token_email_subject:
  "reset_token_email a now tok = Inr e \<Longrightarrow> reset_token_email a now' tok = Inr e' \<Longrightarrow> e' = e"
  unfolding reset_token_email_def reset_token_try_def
  by (cases tok) (auto split: sum.splits option.splits if_splits jval.splits)

text \<open>A payload that the library returns never has a \<open>null\<close> subject.\<close>

lemma jwt_decode_subject:
  "jwt_decode now tok key = Inr payload \<Longrightarrow> sub payload \<noteq> Some JNull"
  by (cases tok) (auto split: if_splits)

lemma jwt_decode_errors:
  "jwt_decode now tok key = Inl err \<Longrightarrow> is_jwt_error err"
  by (cases tok) (auto split: if_splits)

section \<open>Refresh-token rotation\<close>

text \<open>
  What a login and a refresh that return tokens have done, and what the refresh token
  they issue decodes to.
\<close>

lemma login_success:
  assumes "login a t e pw d = (Inr r, d')"
  shows "\<exists>u acc ref. get_user_by_email e d = Some u \<and> email_confirm u
           \<and> verify_password a pw (password u) = Inr True
           \<and> create_access_token a t (sub_data e) None = Inr acc
           \<and> create_refresh_token a t (sub_data e) None = Inr ref
           \<and> r = RToken acc ref ''bearer'' \<and> d' = update_token u (Some ref) d"
proof (cases "get_user_by_email e d")
  case None
  with assms show ?thesis by (simp add: login_def)
next
  case (Some u)
  then have "email u = e" by (rule get_user_by_email_email)
  with assms Some show ?thesis
    by (auto simp: login_def split: sum.splits if_splits)
qed

lemma refresh_success:
  assumes "refresh_token_route a t tok d = (Inr r, d')"
  shows "\<exists>e u acc ref. refresh_token_email a t tok = Inr e \<and> get_user_by_email e d = Some u
           \<and> refresh_token u = Some tok
           \<and> create_access_token a t (sub_data e) None = Inr acc
           \<and> create_refresh_token a t (sub_data e) None = Inr ref
           \<and> r = RToken acc ref ''bearer'' \<and> d' = update_token u (Some ref) d"
  using assms
  by (auto simp: refresh_token_route_def split: sum.splits option.splits if_splits)

lemma create_refresh_token_default:
  "create_refresh_token a t (sub_data e) None = Inr tok \<Longrightarrow>
     tok = Signed (secret_key a)
             \<lparr>sub = Some (JStr e), iat = Some (timegm t), exp = Some (timegm t + 1800),
              scope = Some (JStr ''refresh_token'')\<rparr> 0"
  using timegm_add_seconds [of t 1800]
  by (auto simp: create_refresh_token_def expire_at_def datetime_add_def jwt_encode_def
      sub_data_def Let_def split: if_splits)

lemma issued_refresh_token_decodes:
  assumes "create_refresh_token a ti (sub_data e) None = Inr tok"
  shows "jwt_decode t tok (secret_key a) =
           (if timegm t \<le> timegm ti + 1800
            then Inr \<lparr>sub = Some (JStr e), iat = Some (timegm ti),
                      exp = Some (timegm ti + 1800), scope = Some (JStr ''refresh_token'')\<rparr>
            else Inl ExpiredSignatureError)"
  using create_refresh_token_default [OF assms] by simp

lemma issued_refresh_token_email:
  assumes "create_refresh_token a ti (sub_data e) None = Inr tok"
  shows "refresh_token_email a t tok =
           (if timegm t \<le> timegm ti + 1800 then Inr e
            else Inl (HTTPException 401 ''Could not validate credentials'' []))"
  using issued_refresh_token_decodes [OF assms, of t]
  by (simp add: refresh_token_email_def refresh_token_try_def)

text \<open>
  Along a chain of refreshes every token the client is given was issued for the same
  email, and the table holds the last of them.
\<close>

lemma refresh_chain_step:
  assumes "refresh_chain a tok (t # ts) d = Some (toks, dn)"
  shows "\<exists>acc ref ty d' toks'. refresh_token_route a t tok d = (Inr (RToken acc ref ty), d')
           \<and> refresh_chain a ref ts d' = Some (toks', dn) \<and> toks = ref # toks'"
  using assms
  by (auto split: prod.splits sum.splits response.splits option.splits)

lemma refresh_chain_tokens:
  assumes "refresh_chain a tok ts d = Some (toks, dn)"
      and "\<exists>t0. create_refresh_token a t0 (sub_data e) None = Inr tok"
      and "\<exists>u. get_user_by_email e d = Some u \<and> refresh_token u = Some tok"
  shows "(\<exists>u. get_user_by_email e dn = Some u \<and> refresh_token u = Some (last (tok # toks)))
       \<and> (\<forall>x \<in> set toks. \<exists>t. create_refresh_token a t (sub_data e) None = Inr x)"
  using assms
proof (induction ts arbitrary: tok d toks)
  case Nil
  then show ?case by simp
next
  case (Cons t ts)
  from refresh_chain_step [OF Cons.prems(1)] obtain acc ref ty d' toks'
    where step: "refresh_token_route a t tok d = (Inr (RToken acc ref ty), d')"
      and rest: "refresh_chain a ref ts d' = Some (toks', dn)" and toks: "toks = ref # toks'"
    by blast
  from refresh_success [OF step] obtain e' u
    where dec: "refresh_token_email a t tok = Inr e'" and usr: "get_user_by_email e' d = Some u"
      and new: "create_refresh_token a t (sub_data e') None = Inr ref"
      and d': "d' = update_token u (Some ref) d"
    by auto
  from Cons.prems(2) obtain t0 where "create_refresh_token a t0 (sub_data e) None = Inr tok"
    by blast
  from issued_refresh_token_email [OF this, of t] dec have "e' = e"
    by (simp split: if_splits)
  have issued: "\<exists>t0. create_refresh_token a t0 (sub_data e) None = Inr ref"
    using new \<open>e' = e\<close> by blast
  have stored: "\<exists>u. get_user_by_email e d' = Some u \<and> refresh_token u = Some ref"
    using usr \<open>e' = e\<close> by (simp add: d' get_user_by_email_update_token)
  from Cons.IH [OF rest issued stored] issued show ?case
    by (auto simp: toks)
qed

text \<open>
  C1, as the code has it. An identity logs in and then refreshes any number of times,
  each time with the refresh token it was given last; \<open>old\<close> is any of the tokens that
  have been superseded on the way and \<open>last (r0 # toks)\<close> the one given last, which the
  table holds. Every superseded token was written by the issuer for the identity's
  email. Presented again at any clock reading \<open>t\<close>:
  \<^item> when the library no longer accepts it (it has expired), the refresh is refused with
    401 \<open>Could not validate credentials\<close> and the table, with the stored token, is left
    as it was;
  \<^item> when it is still accepted and is not the same string as the stored token, the
    refresh is refused with 401 \<open>Invalid refresh token\<close> and the stored token becomes
    \<open>None\<close>;
  \<^item> when it is still accepted and is the same string as the stored token (a rotation
    within one clock second writes the same token again), it is the current token and
    the refresh rotates.

  Once the stored token is \<open>None\<close>, every refresh with a token that decodes to this
  email is refused with 401 \<open>Invalid refresh token\<close> and changes nothing, until a login
  of the confirmed identity with a password that verifies stores the refresh token it
  issues. A token that does not decode as a refresh token is refused with 401
  \<open>Could not validate credentials\<close> against every table, which it leaves as it is.
\<close>

theorem superseded_refresh_token:
  assumes start: "login a t0 e pw d = (Inr (RToken acc r0 ty), d0)"
      and chain: "refresh_chain a r0 ts d0 = Some (toks, dn)"
      and old: "old \<in> set (butlast (r0 # toks))"
  shows "\<exists>u ti. get_user_by_email e dn = Some u
       \<and> refresh_token u = Some (last (r0 # toks))
       \<and> create_refresh_token a ti (sub_data e) None = Inr old
       \<and> (\<forall>t. ((\<exists>err. jwt_decode t old (secret_key a) = Inl err) \<longrightarrow>
                  refresh_token_route a t old dn =
                    (Inl (HTTPException 401 ''Could not validate credentials'' []), dn))
              \<and> ((\<exists>p. jwt_decode t old (secret_key a) = Inr p) \<and> old \<noteq> last (r0 # toks) \<longrightarrow>
                  refresh_token_route a t old dn =
                    (Inl (HTTPException 401 ''Invalid refresh token'' []),
                     update_token u None dn))
              \<and> ((\<exists>p. jwt_decode t old (secret_key a) = Inr p) \<and> old = last (r0 # toks) \<longrightarrow>
                  (\<forall>acc' ref'. create_access_token a t (sub_data e) None = Inr acc'
                        \<and> create_refresh_token a t (sub_data e) None = Inr ref' \<longrightarrow>
                     refresh_token_route a t old dn =
                       (Inr (RToken acc' ref' ''bearer''), update_token u (Some ref') dn))))
       \<and> get_user_by_email e (update_token u None dn) = Some (u\<lparr>refresh_token := None\<rparr>)
       \<and> (\<forall>now' tok' p. jwt_decode now' tok' (secret_key a) = Inr p
               \<and> scope p = Some (JStr ''refresh_token'') \<and> sub p = Some (JStr e) \<longrightarrow>
             refresh_token_route a now' tok' (update_token u None dn) =
               (Inl (HTTPException 401 ''Invalid refresh token'' []), update_token u None dn))
       \<and> (\<forall>now' tok' d'. (\<nexists>p e'. jwt_decode now' tok' (secret_key a) = Inr p
               \<and> scope p = Some (JStr ''refresh_token'') \<and> sub p = Some (JStr e')) \<longrightarrow>
             refresh_token_route a now' tok' d' =
               (Inl (HTTPException 401 ''Could not validate credentials'' []), d'))
       \<and> (\<forall>now' pw' acc' ref'. verify_password a pw' (password u) = Inr True
               \<and> email_confirm u
               \<and> create_access_token a now' (sub_data e) None = Inr acc'
               \<and> create_refresh_token a now' (sub_data e) None = Inr ref' \<longrightarrow>
             login a now' e pw' (update_token u None dn) =
               (Inr (RToken acc' ref' ''bearer''), update_token u (Some ref') dn))"
proof -
  define cur where "cur = last (r0 # toks)"
  from login_success [OF start] obtain u0
    where usr0: "get_user_by_email e d = Some u0"
      and iss0: "create_refresh_token a t0 (sub_data e) None = Inr r0"
      and d0: "d0 = update_token u0 (Some r0) d"
    by auto
  have stored0: "\<exists>u. get_user_by_email e d0 = Some u \<and> refresh_token u = Some r0"
    using usr0 by (simp add: d0 get_user_by_email_update_token)
  from refresh_chain_tokens [OF chain _ stored0] iss0
  obtain u where usr: "get_user_by_email e dn = Some u" and cur: "refresh_token u = Some cur"
    and issued: "\<forall>x \<in> set toks. \<exists>t. create_refresh_token a t (sub_data e) None = Inr x"
    unfolding cur_def by blast
  have "old \<in> set (r0 # toks)"
    using old by (rule in_set_butlastD)
  then obtain ti where iss: "create_refresh_token a ti (sub_data e) None = Inr old"
    using iss0 issued by auto
  have mail: "email u = e"
    using usr by (rule get_user_by_email_email)
  let ?d = "update_token u None dn"
  have stored: "get_user_by_email e ?d = Some (u\<lparr>refresh_token := None\<rparr>)"
    using usr by (simp add: get_user_by_email_update_token)
  have expired: "refresh_token_route a t old dn =
      (Inl (HTTPException 401 ''Could not validate credentials'' []), dn)"
    if "\<exists>err. jwt_decode t old (secret_key a) = Inl err" for t
  proof -
    from that issued_refresh_token_decodes [OF iss, of t]
    have "\<not> timegm t \<le> timegm ti + 1800" by (auto split: if_splits)
    then have "refresh_token_email a t old =
        Inl (HTTPException 401 ''Could not validate credentials'' [])"
      by (simp add: issued_refresh_token_email [OF iss])
    then show ?thesis by (rule refresh_refused_by_decoder)
  qed
  have decoded: "refresh_token_email a t old = Inr e"
    if "\<exists>p. jwt_decode t old (secret_key a) = Inr p" for t
    using that issued_refresh_token_decodes [OF iss, of t]
    by (auto simp: issued_refresh_token_email [OF iss] split: if_splits)
  have replay: "refresh_token_route a t old dn =
      (Inl (HTTPException 401 ''Invalid refresh token'' []), ?d)"
    if "(\<exists>p. jwt_decode t old (secret_key a) = Inr p) \<and> old \<noteq> cur" for t
    using that decoded [of t] usr cur by (auto simp: refresh_token_route_def)
  have same: "refresh_token_route a t old dn =
      (Inr (RToken acc' ref' ''bearer''), update_token u (Some ref') dn)"
    if "(\<exists>p. jwt_decode t old (secret_key a) = Inr p) \<and> old = cur"
      and "create_access_token a t (sub_data e) None = Inr acc'
        \<and> create_refresh_token a t (sub_data e) None = Inr ref'" for t acc' ref'
  proof -
    have "refresh_token_email a t old = Inr e"
      using that(1) by (intro decoded) blast
    moreover have "refresh_token u = Some old"
      using that(1) cur by simp
    ultimately show ?thesis
      using that(2) usr by (simp add: refresh_token_route_def)
  qed
  have locked: "refresh_token_route a now' tok' ?d =
      (Inl (HTTPException 401 ''Invalid refresh token'' []), ?d)"
    if "jwt_decode now' tok' (secret_key a) = Inr p
        \<and> scope p = Some (JStr ''refresh_token'') \<and> sub p = Some (JStr e)" for now' tok' p
  proof -
    from that have "refresh_token_email a now' tok' = Inr e"
      unfolding refresh_token_email_iff by blast
    then show ?thesis
      using stored by (simp add: refresh_token_route_def update_token_twice)
  qed
  have undecoded: "refresh_token_route a now' tok' d' =
      (Inl (HTTPException 401 ''Could not validate credentials'' []), d')"
    if "\<nexists>p e'. jwt_decode now' tok' (secret_key a) = Inr p
        \<and> scope p = Some (JStr ''refresh_token'') \<and> sub p = Some (JStr e')" for now' tok' d'
    using refresh_token_email_not_decoded [OF that] by (rule refresh_refused_by_decoder)
  have relogin: "login a now' e pw' ?d =
      (Inr (RToken acc' ref' ''bearer''), update_token u (Some ref') dn)"
    if "verify_password a pw' (password u) = Inr True \<and> email_confirm u
        \<and> create_access_token a now' (sub_data e) None = Inr acc'
        \<and> create_refresh_token a now' (sub_data e) None = Inr ref'" for now' pw' acc' ref'
    using that stored mail by (simp add: login_def update_token_twice)
  show ?thesis
    unfolding cur_def [symmetric]
    by (intro exI [of _ u] exI [of _ ti] conjI allI impI;
        (fact usr cur iss stored | erule expired replay locked undecoded relogin
          | erule (1) same))
qed

theorem superseded_refresh_token_witness:
  "login demo_app (seconds 0) ''a@x.com'' ''pw12345'' [demo_user None None]
     = (Inr (RToken (demo_access 0) (demo_refresh 0) ''bearer''),
        [demo_user (Some (demo_refresh 0)) None])
   \<and> refresh_chain demo_app (demo_refresh 0) [seconds 1000, seconds 1500]
        [demo_user (Some (demo_refresh 0)) None]
     = Some ([demo_refresh 1000, demo_refresh 1500], [demo_user (Some (demo_refresh 1500)) None])
   \<and> refresh_token_route demo_app (seconds 1600) (demo_refresh 0)
        [demo_user (Some (demo_refresh 1500)) None]
     = (Inl (HTTPException 401 ''Invalid refresh token'' []), [demo_user None None])
   \<and> refresh_token_route demo_app (seconds 1601) (demo_refresh 1500) [demo_user None None]
     = (Inl (HTTPException 401 ''Invalid refresh token'' []), [demo_user None None])"
proof -
  let ?dn = "[demo_user (Some (demo_refresh 1500)) None]"
  have start: "login demo_app (seconds 0) ''a@x.com'' ''pw12345'' [demo_user None None]
     = (Inr (RToken (demo_access 0) (demo_refresh 0) ''bearer''),
        [demo_user (Some (demo_refresh 0)) None])"
    by (simp add: login_def verify_password_def token_defs demo_defs repo_defs)
  have chain: "refresh_chain demo_app (demo_refresh 0) [seconds 1000, seconds 1500]
        [demo_user (Some (demo_refresh 0)) None]
     = Some ([demo_refresh 1000, demo_refresh 1500], ?dn)"
    by (simp add: refresh_token_route_def decode_defs token_defs demo_defs repo_defs)
  have old: "demo_refresh 0 \<in> set (butlast (demo_refresh 0 # [demo_refresh 1000, demo_refresh 1500]))"
    by simp
  from superseded_refresh_token [OF start chain old]
  obtain u where usr: "get_user_by_email ''a@x.com'' ?dn = Some u"
    and replay: "\<And>t. (\<exists>p. jwt_decode t (demo_refresh 0) (secret_key demo_app) = Inr p)
        \<and> demo_refresh 0 \<noteq> last (demo_refresh 0 # [demo_refresh 1000, demo_refresh 1500]) \<Longrightarrow>
      refresh_token_route demo_app t (demo_refresh 0) ?dn =
        (Inl (HTTPException 401 ''Invalid refresh token'' []), update_token u None ?dn)"
    and locked: "\<And>now' tok' p. jwt_decode now' tok' (secret_key demo_app) = Inr p
        \<and> scope p = Some (JStr ''refresh_token'') \<and> sub p = Some (JStr ''a@x.com'') \<Longrightarrow>
      refresh_token_route demo_app now' tok' (update_token u None ?dn) =
        (Inl (HTTPException 401 ''Invalid refresh token'' []), update_token u None ?dn)"
    by (elim exE conjE) (rule that, assumption, blast, blast)
  have u: "u = demo_user (Some (demo_refresh 1500)) None"
    using usr by (simp add: repo_defs demo_user_def)
  have cleared: "update_token u None ?dn = [demo_user None None]"
    by (simp add: u repo_defs demo_user_def)
  have dec: "(\<exists>p. jwt_decode (seconds 1600) (demo_refresh 0) (secret_key demo_app) = Inr p)
      \<and> demo_refresh 0 \<noteq> last (demo_refresh 0 # [demo_refresh 1000, demo_refresh 1500])"
    by (simp add: demo_defs timegm_def)
  have dec2: "jwt_decode (seconds 1601) (demo_refresh 1500) (secret_key demo_app)
        = Inr \<lparr>sub = Some (JStr ''a@x.com''), iat = Some 1500, exp = Some 3300,
                scope = Some (JStr ''refresh_token'')\<rparr>
      \<and> scope \<lparr>sub = Some (JStr ''a@x.com''), iat = Some 1500, exp = Some 3300,
                scope = Some (JStr ''refresh_token'')\<rparr> = Some (JStr ''refresh_token'')
      \<and> sub \<lparr>sub = Some (JStr ''a@x.com''), iat = Some 1500, exp = Some 3300,
                scope = Some (JStr ''refresh_token'')\<rparr> = Some (JStr ''a@x.com'')"
    by (simp add: demo_defs timegm_def)
  show ?thesis
    using start chain replay [OF dec] locked [OF dec2] by (simp add: cleared)
qed

text \<open>
  C1 as stated fails in two ways. The account logs in at second 0 and rotates at second
  1000; the first refresh token expires at second 1800. Presented at second 2000 it is
  refused by the decoder, the stored token is still the second one, and a refresh with
  the second token then succeeds. And when the account rotates half a second after the
  login, the token it is given is the very string it presented: that superseded token
  is accepted again a second later.
\<close>

theorem refresh_replay_counterexample:
  "login demo_app (seconds 0) ''a@x.com'' ''pw12345'' [demo_user None None]
     = (Inr (RToken (demo_access 0) (demo_refresh 0) ''bearer''),
        [demo_user (Some (demo_refresh 0)) None])
   \<and> refresh_chain demo_app (demo_refresh 0) [seconds 1000] [demo_user (Some (demo_refresh 0)) None]
     = Some ([demo_refresh 1000], [demo_user (Some (demo_refresh 1000)) None])
   \<and> demo_refresh 0 \<noteq> demo_refresh 1000
   \<and> refresh_token_route demo_app (seconds 2000) (demo_refresh 0)
        [demo_user (Some (demo_refresh 1000)) None]
     = (Inl (HTTPException 401 ''Could not validate credentials'' []),
        [demo_user (Some (demo_refresh 1000)) None])
   \<and> refresh_token_route demo_app (seconds 2001) (demo_refresh 1000)
        [demo_user (Some (demo_refresh 1000)) None]
     = (Inr (RToken (demo_access 2001) (demo_refresh 2001) ''bearer''),
        [demo_user (Some (demo_refresh 2001)) None])
   \<and> refresh_chain demo_app (demo_refresh 0) [500000] [demo_user (Some (demo_refresh 0)) None]
     = Some ([demo_refresh 0], [demo_user (Some (demo_refresh 0)) None])
   \<and> refresh_token_route demo_app (seconds 1) (demo_refresh 0)
        [demo_user (Some (demo_refresh 0)) None]
     = (Inr (RToken (demo_access 1) (demo_refresh 1) ''bearer''),
        [demo_user (Some (demo_refresh 1)) None])"
  by (simp add: login_def refresh_token_route_def verify_password_def decode_defs token_defs
      demo_defs repo_defs)

section \<open>Token lifetime\<close>

text \<open>
  C2, as the code has it. Whenever one of the three issuers returns a token for the
  subject \<open>e\<close>, the token carries an expiry \<open>x\<close> in whole seconds, and the decoder of the
  same scope returns \<open>e\<close> at every clock reading whose whole second is at most \<open>x\<close> and
  refuses the token at every later reading, with its one generic error and not with an
  error of its own for expiry. When no \<open>expires_delta\<close> is given, \<open>x\<close> is the whole second
  of issuance plus the default lifetime: 30 minutes for access and refresh tokens, 5
  minutes for reset tokens. The email token lasts one hour and is refused with 422.
  With the clock more than an hour away from the ends of the calendar, all four issuers
  return a token.
\<close>

theorem issued_token_lifetime:
  "(create_refresh_token a t0 (sub_data e) delta = Inr tok \<longrightarrow>
      (\<exists>p x. tok = Signed (secret_key a) p 0 \<and> exp p = Some x
         \<and> (delta = None \<longrightarrow> x = timegm t0 + 30 * 60)
         \<and> (\<forall>now. refresh_token_email a now tok =
               (if timegm now \<le> x then Inr e
                else Inl (HTTPException 401 ''Could not validate credentials'' [])))))
   \<and> (create_reset_password_token a t0 (sub_data e) delta = Inr tok \<longrightarrow>
      (\<exists>p x. tok = Signed (secret_key a) p 0 \<and> exp p = Some x
         \<and> (delta = None \<longrightarrow> x = timegm t0 + 5 * 60)
         \<and> (\<forall>now. reset_token_email a now tok =
               (if timegm now \<le> x then Inr e
                else Inl (HTTPException 401 ''Could not validate credentials'' [])))))
   \<and> (create_access_token a t0 (sub_data e) delta = Inr tok \<longrightarrow>
      (\<exists>p x. tok = Signed (secret_key a) p 0 \<and> exp p = Some x
         \<and> (delta = None \<longrightarrow> x = timegm t0 + 30 * 60)
         \<and> (\<forall>now. current_user_email a now tok =
               (if timegm now \<le> x then Inr e else Inl credentials_exception))))
   \<and> (create_email_token a t0 (sub_data e) = Inr tok \<longrightarrow>
      (\<forall>now. get_email_from_token a now tok =
         (if timegm now \<le> timegm t0 + 60 * 60 then Inr e
          else Inl (HTTPException 422 ''Invalid token for email verification'' []))))
   \<and> (datetime_min \<le> t0 \<and> t0 + 60 * 60 * 1000000 \<le> datetime_max \<longrightarrow>
      (\<exists>t1 t2 t3 t4. create_refresh_token a t0 (sub_data e) None = Inr t1
         \<and> create_reset_password_token a t0 (sub_data e) None = Inr t2
         \<and> create_access_token a t0 (sub_data e) None = Inr t3
         \<and> create_email_token a t0 (sub_data e) = Inr t4))"
proof (intro conjI impI)
  assume "create_refresh_token a t0 (sub_data e) delta = Inr tok"
  then obtain y where y: "expire_at a t0 delta (30 * 60 * 1000000) = Inr y"
    and tok: "tok = Signed (secret_key a)
        \<lparr>sub = Some (JStr e), iat = Some (timegm t0), exp = Some (timegm y),
         scope = Some (JStr ''refresh_token'')\<rparr> 0"
    by (auto simp: create_refresh_token_def jwt_encode_def sub_data_def split: sum.splits)
  have "delta = None \<longrightarrow> timegm y = timegm t0 + 30 * 60"
    using y timegm_add_seconds [of t0 "30 * 60"] by (auto dest: expire_at_None)
  moreover have "\<forall>now. refresh_token_email a now tok =
      (if timegm now \<le> timegm y then Inr e
       else Inl (HTTPException 401 ''Could not validate credentials'' []))"
    by (simp add: tok refresh_token_email_def refresh_token_try_def)
  ultimately show "\<exists>p x. tok = Signed (secret_key a) p 0 \<and> exp p = Some x
         \<and> (delta = None \<longrightarrow> x = timegm t0 + 30 * 60)
         \<and> (\<forall>now. refresh_token_email a now tok =
               (if timegm now \<le> x then Inr e
                else Inl (HTTPException 401 ''Could not validate credentials'' [])))"
    using tok by simp
next
  assume "create_reset_password_token a t0 (sub_data e) delta = Inr tok"
  then obtain y where y: "expire_at a t0 delta (5 * 60 * 1000000) = Inr y"
    and tok: "tok = Signed (secret_key a)
        \<lparr>sub = Some (JStr e), iat = Some (timegm t0), exp = Some (timegm y),
         scope = Some (JStr ''reset_password_token'')\<rparr> 0"
    by (auto simp: create_reset_password_token_def jwt_encode_def sub_data_def
        split: sum.splits)
  have "delta = None \<longrightarrow> timegm y = timegm t0 + 5 * 60"
    using y timegm_add_seconds [of t0 "5 * 60"] by (auto dest: expire_at_None)
  moreover have "\<forall>now. reset_token_email a now tok =
      (if timegm now \<le> timegm y then Inr e
       else Inl (HTTPException 401 ''Could not validate credentials'' []))"
    by (simp add: tok reset_token_email_def reset_token_try_def)
  ultimately show "\<exists>p x. tok = Signed (secret_key a) p 0 \<and> exp p = Some x
         \<and> (delta = None \<longrightarrow> x = timegm t0 + 5 * 60)
         \<and> (\<forall>now. reset_token_email a now tok =
               (if timegm now \<le> x then Inr e
                else Inl (HTTPException 401 ''Could not validate credentials'' [])))"
    using tok by simp
next
  assume "create_access_token a t0 (sub_data e) delta = Inr tok"
  then obtain y where y: "expire_at a t0 delta (30 * 60 * 1000000) = Inr y"
    and tok: "tok = Signed (secret_key a)
        \<lparr>sub = Some (JStr e), iat = Some (timegm t0), exp = Some (timegm y),
         scope = Some (JStr ''access_token'')\<rparr> 0"
    by (auto simp: create_access_token_def jwt_encode_def sub_data_def split: sum.splits)
  have "delta = None \<longrightarrow> timegm y = timegm t0 + 30 * 60"
    using y timegm_add_seconds [of t0 "30 * 60"] by (auto dest: expire_at_None)
  moreover have "\<forall>now. current_user_email a now tok =
      (if timegm now \<le> timegm y then Inr e else Inl credentials_exception)"
    by (simp add: tok current_user_email_def current_user_try_def)
  ultimately show "\<exists>p x. tok = Signed (secret_key a) p 0 \<and> exp p = Some x
         \<and> (delta = None \<longrightarrow> x = timegm t0 + 30 * 60)
         \<and> (\<forall>now. current_user_email a now tok =
               (if timegm now \<le> x then Inr e else Inl credentials_exception))"
    using tok by simp
next
  assume "create_email_token a t0 (sub_data e) = Inr tok"
  then have tok: "tok = Signed (secret_key a)
        \<lparr>sub = Some (JStr e), iat = Some (timegm t0), exp = Some (timegm t0 + 60 * 60),
         scope = None\<rparr> 0"
    using timegm_add_seconds [of t0 "60 * 60"]
    by (auto simp: create_email_token_def datetime_add_def jwt_encode_def sub_data_def
        split: if_splits)
  show "\<forall>now. get_email_from_token a now tok =
         (if timegm now \<le> timegm t0 + 60 * 60 then Inr e
          else Inl (HTTPException 422 ''Invalid token for email verification'' []))"
    by (simp add: tok get_email_from_token_def)
next
  assume "datetime_min \<le> t0 \<and> t0 + 60 * 60 * 1000000 \<le> datetime_max"
  then show "\<exists>t1 t2 t3 t4. create_refresh_token a t0 (sub_data e) None = Inr t1
         \<and> create_reset_password_token a t0 (sub_data e) None = Inr t2
         \<and> create_access_token a t0 (sub_data e) None = Inr t3
         \<and> create_email_token a t0 (sub_data e) = Inr t4"
    by (simp add: create_refresh_token_def create_reset_password_token_def
        create_access_token_def create_email_token_def expire_at_def datetime_add_def)
qed

theorem issued_token_lifetime_witness:
  "create_refresh_token demo_app (seconds 0) (sub_data ''a@x.com'') None = Inr (demo_refresh 0)
   \<and> refresh_token_email demo_app (seconds 1800) (demo_refresh 0) = Inr ''a@x.com''
   \<and> refresh_token_email demo_app (seconds 1801) (demo_refresh 0)
       = Inl (HTTPException 401 ''Could not validate credentials'' [])
   \<and> create_reset_password_token demo_app (seconds 100) (sub_data ''a@x.com'') None
       = Inr (demo_reset 100)
   \<and> reset_token_email demo_app (seconds 400) (demo_reset 100) = Inr ''a@x.com''
   \<and> reset_token_email demo_app (seconds 401) (demo_reset 100)
       = Inl (HTTPException 401 ''Could not validate credentials'' [])"
proof -
  have r: "create_refresh_token demo_app (seconds 0) (sub_data ''a@x.com'') None
      = Inr (demo_refresh 0)"
    by (simp add: token_defs demo_defs)
  have p: "create_reset_password_token demo_app (seconds 100) (sub_data ''a@x.com'') None
      = Inr (demo_reset 100)"
    by (simp add: token_defs demo_defs)
  note inst = issued_token_lifetime [of demo_app _ "''a@x.com''" None]
  from inst [of "seconds 0" "demo_refresh 0"] r
  have a: "\<forall>now. refresh_token_email demo_app now (demo_refresh 0) =
      (if timegm now \<le> 1800 then Inr ''a@x.com''
       else Inl (HTTPException 401 ''Could not validate credentials'' []))"
    by (auto simp: timegm_def seconds_def)
  from inst [of "seconds 100" "demo_reset 100"] p
  have b: "\<forall>now. reset_token_email demo_app now (demo_reset 100) =
      (if timegm now \<le> 400 then Inr ''a@x.com''
       else Inl (HTTPException 401 ''Could not validate credentials'' []))"
    by (auto simp: timegm_def seconds_def)
  show ?thesis
    using r p a b by (simp add: timegm_def seconds_def)
qed

text \<open>
  C2 as stated fails at the resolution of the clock and in the error. A refresh token
  issued at 0.5 seconds with the default lifetime of 1800 seconds expires at second
  1800: at 1800.9 seconds, strictly after issuance plus lifetime, it still decodes. And
  at second 1801 it is refused with the decoder's generic error; the library's
  \<open>ExpiredSignatureError\<close> does not leave the decoder.
\<close>

theorem expired_token_counterexample:
  "create_refresh_token demo_app 500000 (sub_data ''a@x.com'') None = Inr (demo_refresh 0)
   \<and> (500000 + 1800 * 1000000 :: int) < 1800900000
   \<and> refresh_token_email demo_app 1800900000 (demo_refresh 0) = Inr ''a@x.com''
   \<and> jwt_decode (seconds 1801) (demo_refresh 0) (secret_key demo_app)
       = Inl ExpiredSignatureError
   \<and> refresh_token_email demo_app (seconds 1801) (demo_refresh 0)
       = Inl (HTTPException 401 ''Could not validate credentials'' [])"
  by (simp add: decode_defs token_defs demo_defs)

section \<open>Setting a new password\<close>

lemma set_new_password_reaches_hash:
  assumes "reset_token_email a now (reset_password_token rq) = Inr e"
      and "get_user_by_email e d = Some u"
      and "password_reset_token u = Some (reset_password_token rq)"
      and "new_password rq = confirm_password rq"
  shows "set_new_password a now salt rq d =
           (case get_hash_password a salt (new_password rq) of
              Inl err \<Rightarrow> (Inl err, d)
            | Inr h \<Rightarrow>
                (Inr (RText ''password update successfully''),
                 update_reset_token u None (update_password u h d)))"
  using assms by (simp add: set_new_password_def Let_def)

lemma set_new_password_succeeds_iff:
  "(\<exists>r. fst (set_new_password a now salt rq d) = Inr r) \<longleftrightarrow>
     (\<exists>e u h. reset_token_email a now (reset_password_token rq) = Inr e
          \<and> get_user_by_email e d = Some u
          \<and> password_reset_token u = Some (reset_password_token rq)
          \<and> new_password rq = confirm_password rq
          \<and> get_hash_password a salt (new_password rq) = Inr h)"
  by (auto simp: set_new_password_def Let_def split: sum.splits option.splits if_splits)

lemma set_new_password_repeat:
  assumes dec: "reset_token_email a now (reset_password_token rq) = Inr e"
      and usr: "get_user_by_email e d' = Some u'"
      and clr: "password_reset_token u' = None"
  shows "\<exists>detail. set_new_password a now' salt' rq d' = (Inl (HTTPException 401 detail []), d')"
proof (cases "reset_token_email a now' (reset_password_token rq)")
  case (Inl err)
  then show ?thesis
    using reset_token_email_error [OF Inl] by (simp add: set_new_password_def Let_def)
next
  case (Inr e')
  then have "e' = e"
    using dec by (rule reset_token_email_subject [rotated])
  then show ?thesis
    using Inr usr clr by (simp add: set_new_password_def Let_def)
qed

text \<open>
  C3, as the code has it. \<^verbatim>\<open>set_new_password\<close> returns a result exactly when the token
  library accepts the presented token at that clock reading, the token's scope is
  \<open>reset_password_token\<close>, its subject is the email of a row whose stored
  \<open>password_reset_token\<close> is the presented string, the two password fields are equal
  and the password context returns a digest for the new password. Whenever it returns a
  result, the table it leaves has \<open>None\<close> stored for that identity, and the same request
  repeated against that table, at any clock reading, is refused with status 401 and
  leaves the table as it is. When everything but the hashing holds, the error of the
  password context is the result and the table is left as it was.
\<close>

theorem set_new_password_contract:
  "((\<exists>r. fst (set_new_password a now salt rq d) = Inr r) \<longleftrightarrow>
     (\<exists>p e u h. jwt_decode now (reset_password_token rq) (secret_key a) = Inr p
          \<and> scope p = Some (JStr ''reset_password_token'') \<and> sub p = Some (JStr e)
          \<and> get_user_by_email e d = Some u
          \<and> password_reset_token u = Some (reset_password_token rq)
          \<and> new_password rq = confirm_password rq
          \<and> get_hash_password a salt (new_password rq) = Inr h))
   \<and> (\<forall>r d'. set_new_password a now salt rq d = (Inr r, d') \<longrightarrow>
         (\<exists>p e u'. jwt_decode now (reset_password_token rq) (secret_key a) = Inr p
              \<and> sub p = Some (JStr e)
              \<and> get_user_by_email e d' = Some u' \<and> password_reset_token u' = None)
         \<and> (\<forall>now' salt'. \<exists>detail.
               set_new_password a now' salt' rq d' = (Inl (HTTPException 401 detail []), d')))
   \<and> (\<forall>p e u err. jwt_decode now (reset_password_token rq) (secret_key a) = Inr p
          \<and> scope p = Some (JStr ''reset_password_token'') \<and> sub p = Some (JStr e)
          \<and> get_user_by_email e d = Some u
          \<and> password_reset_token u = Some (reset_password_token rq)
          \<and> new_password rq = confirm_password rq
          \<and> get_hash_password a salt (new_password rq) = Inl err \<longrightarrow>
        set_new_password a now salt rq d = (Inl err, d))"
proof (intro conjI allI impI)
  show "(\<exists>r. fst (set_new_password a now salt rq d) = Inr r) \<longleftrightarrow>
     (\<exists>p e u h. jwt_decode now (reset_password_token rq) (secret_key a) = Inr p
          \<and> scope p = Some (JStr ''reset_password_token'') \<and> sub p = Some (JStr e)
          \<and> get_user_by_email e d = Some u
          \<and> password_reset_token u = Some (reset_password_token rq)
          \<and> new_password rq = confirm_password rq
          \<and> get_hash_password a salt (new_password rq) = Inr h)"
    unfolding set_new_password_succeeds_iff reset_token_email_iff by blast
next
  fix r d'
  assume ok: "set_new_password a now salt rq d = (Inr r, d')"
  then have "\<exists>r. fst (set_new_password a now salt rq d) = Inr r"
    by simp
  then obtain e u h where dec: "reset_token_email a now (reset_password_token rq) = Inr e"
      and usr: "get_user_by_email e d = Some u"
      and tok: "password_reset_token u = Some (reset_password_token rq)"
      and pw: "new_password rq = confirm_password rq"
      and h: "get_hash_password a salt (new_password rq) = Inr h"
    unfolding set_new_password_succeeds_iff by blast
  have d': "d' = update_reset_token u None (update_password u h d)"
    using ok set_new_password_reaches_hash [OF dec usr tok pw, of salt] h by simp
  have stored: "get_user_by_email e d' = Some (u\<lparr>password := h, password_reset_token := None\<rparr>)"
    using usr
    by (simp add: d' get_user_by_email_update_reset_token get_user_by_email_update_password)
  from dec obtain p where "jwt_decode now (reset_password_token rq) (secret_key a) = Inr p"
      and "sub p = Some (JStr e)"
    unfolding reset_token_email_iff by blast
  then show "\<exists>p e u'. jwt_decode now (reset_password_token rq) (secret_key a) = Inr p
      \<and> sub p = Some (JStr e)
      \<and> get_user_by_email e d' = Some u' \<and> password_reset_token u' = None"
    using stored by auto
  show "\<And>now' salt'. \<exists>detail.
      set_new_password a now' salt' rq d' = (Inl (HTTPException 401 detail []), d')"
    using set_new_password_repeat [OF dec stored] by simp
next
  fix p e u err
  assume *: "jwt_decode now (reset_password_token rq) (secret_key a) = Inr p
          \<and> scope p = Some (JStr ''reset_password_token'') \<and> sub p = Some (JStr e)
          \<and> get_user_by_email e d = Some u
          \<and> password_reset_token u = Some (reset_password_token rq)
          \<and> new_password rq = confirm_password rq
          \<and> get_hash_password a salt (new_password rq) = Inl err"
  then have "reset_token_email a now (reset_password_token rq) = Inr e"
    unfolding reset_token_email_iff by blast
  from set_new_password_reaches_hash [OF this, of d u salt] *
  show "set_new_password a now salt rq d = (Inl err, d)"
    by auto
qed

theorem set_new_password_contract_witness:
  "set_new_password demo_app (seconds 200) ''$2b$'' (demo_request ''new-pw'')
       [demo_user None (Some (demo_reset 100))]
     = (Inr (RText ''password update successfully''),
        [(demo_user None None)\<lparr>password := ''$2b$new-pw''\<rparr>])
   \<and> set_new_password demo_app (seconds 201) ''$2b$'' (demo_request ''new-pw'')
         [(demo_user None None)\<lparr>password := ''$2b$new-pw''\<rparr>]
     = (Inl (HTTPException 401 ''Invalid reset token'' []),
        [(demo_user None None)\<lparr>password := ''$2b$new-pw''\<rparr>])"
proof -
  have ok: "set_new_password demo_app (seconds 200) ''$2b$'' (demo_request ''new-pw'')
      [demo_user None (Some (demo_reset 100))]
     = (Inr (RText ''password update successfully''),
        [(demo_user None None)\<lparr>password := ''$2b$new-pw''\<rparr>])"
    by (simp add: set_new_password_def demo_request_def decode_defs demo_defs
        repo_defs get_hash_password_def Let_def)
  have again: "fst (set_new_password demo_app (seconds 201) ''$2b$'' (demo_request ''new-pw'')
         [(demo_user None None)\<lparr>password := ''$2b$new-pw''\<rparr>])
     = Inl (HTTPException 401 ''Invalid reset token'' [])"
    by (simp add: set_new_password_def demo_request_def decode_defs demo_defs
        repo_defs Let_def)
  from set_new_password_contract [of demo_app "seconds 200" "''$2b$''" "demo_request ''new-pw''"
        "[demo_user None (Some (demo_reset 100))]"] ok
  have "\<exists>detail. set_new_password demo_app (seconds 201) ''$2b$'' (demo_request ''new-pw'')
         [(demo_user None None)\<lparr>password := ''$2b$new-pw''\<rparr>]
     = (Inl (HTTPException 401 detail []), [(demo_user None None)\<lparr>password := ''$2b$new-pw''\<rparr>])"
    by blast
  then show ?thesis
    using ok again by auto
qed

text \<open>
  C3 as stated fails for a new password that bcrypt refuses: the token decodes with the
  reset scope and is the stored one, the two password fields are equal, and the request
  ends in \<open>PasswordValueError\<close> with the reset token still stored.
\<close>

theorem nul_password_reset_counterexample:
  "jwt_decode (seconds 200) (demo_reset 100) (secret_key demo_app)
     = Inr \<lparr>sub = Some (JStr ''a@x.com''), iat = Some 100, exp = Some 400,
            scope = Some (JStr ''reset_password_token'')\<rparr>
   \<and> password_reset_token (demo_user None (Some (demo_reset 100)))
       = Some (reset_password_token (demo_request [CHR ''p'', CHR 0x00]))
   \<and> new_password (demo_request [CHR ''p'', CHR 0x00])
       = confirm_password (demo_request [CHR ''p'', CHR 0x00])
   \<and> set_new_password demo_app (seconds 200) ''$2b$'' (demo_request [CHR ''p'', CHR 0x00])
       [demo_user None (Some (demo_reset 100))]
     = (Inl PasswordValueError, [demo_user None (Some (demo_reset 100))])"
  by (simp add: set_new_password_def demo_request_def decode_defs demo_defs
      repo_defs get_hash_password_def Let_def)

section \<open>Signing up and logging in\<close>

lemma sign_up_fresh:
  assumes "get_user_by_email (body_email b) d = None"
      and "get_hash_password a salt (body_password b) = Inr h"
  shows "sign_up a salt b d =
     (Inr (RUser \<lparr>user_id = fresh_id d, username = body_username b, email = body_email b,
                  email_confirm = False, password = h,
                  avatar = Some (gravatar a (body_email b)), refresh_token = None,
                  password_reset_token = None\<rparr>),
      d @ [\<lparr>user_id = fresh_id d, username = body_username b, email = body_email b,
            email_confirm = False, password = h,
            avatar = Some (gravatar a (body_email b)), refresh_token = None,
            password_reset_token = None\<rparr>])"
  using assms by (simp add: sign_up_def add_user_def Let_def)

lemma sign_up_refused_by_hasher:
  assumes "get_user_by_email (body_email b) d = None"
      and "get_hash_password a salt (body_password b) = Inl err"
  shows "sign_up a salt b d = (Inl err, d)"
  using assms by (simp add: sign_up_def)

lemma sign_up_taken:
  assumes "get_user_by_email (body_email b) d = Some u"
  shows "sign_up a salt b d = (Inl (HTTPException 409 ''This email is already in use'' []), d)"
  using assms by (simp add: sign_up_def)

text \<open>
  C4, as the code has it. The table holds at most one row with the email (the column is
  unique). Whenever the first sign-up leaves a row with the email in the table, a second
  sign-up with that email is refused with 409 and returns the table unchanged, and
  exactly one row has the email. The first sign-up leaves such a row when the email was
  already there (it is then refused with 409 itself) and when the email is new and the
  password context returns a digest, which is what the appended row stores as its
  password. When the email is new and the password context refuses the password, the
  first sign-up ends in that error and stores nothing.
\<close>

theorem sign_up_twice:
  assumes uniq: "length (filter (\<lambda>r. email r = body_email b1) d) \<le> 1"
      and same: "body_email b2 = body_email b1"
  shows "((\<exists>u. get_user_by_email (body_email b1) (snd (sign_up a s1 b1 d)) = Some u) \<longrightarrow>
            sign_up a s2 b2 (snd (sign_up a s1 b1 d)) =
              (Inl (HTTPException 409 ''This email is already in use'' []),
               snd (sign_up a s1 b1 d))
            \<and> length (filter (\<lambda>r. email r = body_email b1) (snd (sign_up a s1 b1 d))) = 1)
       \<and> (\<forall>h. get_user_by_email (body_email b1) d = None
              \<and> get_hash_password a s1 (body_password b1) = Inr h \<longrightarrow>
            (\<exists>u. sign_up a s1 b1 d = (Inr (RUser u), d @ [u])
               \<and> email u = body_email b1 \<and> password u = h
               \<and> get_user_by_email (body_email b1) (d @ [u]) = Some u))
       \<and> (\<forall>err. get_user_by_email (body_email b1) d = None
              \<and> get_hash_password a s1 (body_password b1) = Inl err \<longrightarrow>
            sign_up a s1 b1 d = (Inl err, d))
       \<and> (\<forall>u. get_user_by_email (body_email b1) d = Some u \<longrightarrow>
            sign_up a s1 b1 d =
              (Inl (HTTPException 409 ''This email is already in use'' []), d))"
proof (intro conjI allI impI)
  let ?d1 = "snd (sign_up a s1 b1 d)"
  assume "\<exists>u. get_user_by_email (body_email b1) ?d1 = Some u"
  then obtain u where found: "get_user_by_email (body_email b1) ?d1 = Some u"
    by blast
  then have second: "sign_up a s2 b2 ?d1 =
      (Inl (HTTPException 409 ''This email is already in use'' []), ?d1)"
    by (simp add: sign_up_def same)
  have "length (filter (\<lambda>r. email r = body_email b1) ?d1) \<le> 1"
  proof (cases "get_user_by_email (body_email b1) d")
    case None
    then have empty: "filter (\<lambda>r. email r = body_email b1) d = []"
      by (simp add: get_user_by_email_None_filter)
    show ?thesis
    proof (cases "get_hash_password a s1 (body_password b1)")
      case (Inl err)
      then show ?thesis
        using None empty by (simp add: sign_up_refused_by_hasher)
    next
      case (Inr h)
      then show ?thesis
        using None empty by (simp add: sign_up_fresh)
    qed
  next
    case (Some u0)
    then show ?thesis using uniq by (simp add: sign_up_def)
  qed
  moreover have "filter (\<lambda>r. email r = body_email b1) ?d1 \<noteq> []"
    using found by (simp flip: get_user_by_email_None_filter)
  ultimately have one: "length (filter (\<lambda>r. email r = body_email b1) ?d1) = 1"
    by (cases "filter (\<lambda>r. email r = body_email b1) ?d1") auto
  show "sign_up a s2 b2 ?d1 =
          (Inl (HTTPException 409 ''This email is already in use'' []), ?d1)"
    by (rule second)
  show "length (filter (\<lambda>r. email r = body_email b1) ?d1) = 1"
    by (rule one)
next
  fix h
  assume "get_user_by_email (body_email b1) d = None
      \<and> get_hash_password a s1 (body_password b1) = Inr h"
  then show "\<exists>u. sign_up a s1 b1 d = (Inr (RUser u), d @ [u])
      \<and> email u = body_email b1 \<and> password u = h
      \<and> get_user_by_email (body_email b1) (d @ [u]) = Some u"
    by (simp add: sign_up_fresh get_user_by_email_append)
next
  fix err
  assume "get_user_by_email (body_email b1) d = None
      \<and> get_hash_password a s1 (body_password b1) = Inl err"
  then show "sign_up a s1 b1 d = (Inl err, d)"
    by (simp add: sign_up_refused_by_hasher)
next
  fix u
  assume "get_user_by_email (body_email b1) d = Some u"
  then show "sign_up a s1 b1 d =
      (Inl (HTTPException 409 ''This email is already in use'' []), d)"
    by (rule sign_up_taken)
qed

theorem sign_up_twice_witness:
  "sign_up demo_app ''$2b$'' (demo_body ''pw12345'') []
     = (Inr (RUser (demo_new False)), [demo_new False])
   \<and> sign_up demo_app ''$2c$'' (demo_body ''other'') [demo_new False]
       = (Inl (HTTPException 409 ''This email is already in use'' []), [demo_new False])
   \<and> length (filter (\<lambda>r. email r = ''a@x.com'') [demo_new False]) = 1"
proof -
  have first: "sign_up demo_app ''$2b$'' (demo_body ''pw12345'') []
      = (Inr (RUser (demo_new False)), [demo_new False])"
    by (simp add: sign_up_def add_user_def fresh_id_def get_hash_password_def demo_body_def
        demo_new_def demo_defs repo_defs Let_def)
  have uniq: "length (filter (\<lambda>r. email r = body_email (demo_body ''pw12345'')) []) \<le> 1"
    by simp
  have same: "body_email (demo_body ''other'') = body_email (demo_body ''pw12345'')"
    by (simp add: demo_body_def)
  have mail: "body_email (demo_body ''pw12345'') = ''a@x.com''"
    by (simp add: demo_body_def)
  have found: "\<exists>u. get_user_by_email ''a@x.com'' [demo_new False] = Some u"
    by (simp add: repo_defs demo_new_def demo_user_def)
  show ?thesis
    using sign_up_twice [OF uniq same, of demo_app "''$2b$''" "''$2c$''"] first mail found
    by simp
qed

text \<open>
  C4 as stated fails when bcrypt refuses the first password: the first sign-up ends in
  \<open>PasswordValueError\<close> and leaves the table empty, so a second sign-up with the same
  email is no conflict and creates the identity.
\<close>

theorem nul_password_sign_up_counterexample:
  "sign_up demo_app ''$2b$'' (demo_body [CHR ''p'', CHR ''w'', CHR ''1'', CHR ''2'', CHR 0x00]) []
     = (Inl PasswordValueError, [])
   \<and> sign_up demo_app ''$2b$'' (demo_body ''pw12345'') []
     = (Inr (RUser (demo_new False)), [demo_new False])"
  by (simp add: sign_up_def add_user_def fresh_id_def get_hash_password_def demo_body_def
        demo_new_def demo_defs repo_defs Let_def)

text \<open>
  C5, as the code has it. For an identity whose email is not confirmed, \<^verbatim>\<open>login\<close> never
  returns tokens and leaves the table as it is. The password is tested first: when the
  password context raises, its error is the result; when the password does not verify,
  the result is 401 \<open>Invalid password\<close>; when it verifies, the result is 401 with the
  detail that asks to confirm the account.
\<close>

theorem login_unconfirmed:
  assumes "get_user_by_email e d = Some u" and "\<not> email_confirm u"
  shows "login a now e pw d =
     (case verify_password a pw (password u) of
        Inl err \<Rightarrow> (Inl err, d)
      | Inr ok \<Rightarrow>
          (Inl (HTTPException 401
             (if ok then ''check '' @ email u @ '' to Confirm account''
              else ''Invalid password'') []), d))"
  using assms by (simp add: login_def split: sum.splits)

theorem login_unconfirmed_witness:
  "login demo_app (seconds 0) ''a@x.com'' ''pw12345'' [demo_new False]
     = (Inl (HTTPException 401 ''check a@x.com to Confirm account'' []), [demo_new False])"
proof -
  have usr: "get_user_by_email ''a@x.com'' [demo_new False] = Some (demo_new False)"
    by (simp add: repo_defs demo_new_def demo_user_def)
  have unc: "\<not> email_confirm (demo_new False)"
    by (simp add: demo_new_def)
  have ver: "verify_password demo_app ''pw12345'' (password (demo_new False)) = Inr True"
    by (simp add: verify_password_def demo_new_def demo_defs)
  show ?thesis
    using login_unconfirmed [OF usr unc, of demo_app "seconds 0" "''pw12345''"] ver
    by (simp add: demo_new_def demo_user_def)
qed

text \<open>
  C5 as stated fails for a wrong password, which is refused with \<open>Invalid password\<close>,
  and for a password that bcrypt refuses, which ends in \<open>PasswordValueError\<close>.
\<close>

theorem login_wrong_password_counterexample:
  "login demo_app (seconds 0) ''a@x.com'' ''wrong'' [demo_new False]
     = (Inl (HTTPException 401 ''Invalid password'' []), [demo_new False])
   \<and> login demo_app (seconds 0) ''a@x.com'' [CHR ''p'', CHR 0x00] [demo_new False]
     = (Inl PasswordValueError, [demo_new False])"
  by (simp add: login_def verify_password_def demo_new_def demo_defs repo_defs)

section \<open>Scope checks\<close>

lemma get_email_from_token_any_scope:
  assumes "jwt_decode now tok (secret_key a) = Inr payload" and "sub payload = Some (JStr e)"
  shows "get_email_from_token a now tok = Inr e"
  using assms by (simp add: get_email_from_token_def)

lemma current_user_email_wrong_scope:
  assumes "jwt_decode now tok (secret_key a) = Inr payload"
      and "scope payload \<noteq> Some (JStr ''access_token'')"
  shows "current_user_email a now tok = Inl credentials_exception"
  using assms by (simp add: current_user_email_def current_user_try_def split: option.splits)

lemma refresh_token_email_wrong_scope:
  assumes "jwt_decode now tok (secret_key a) = Inr payload"
      and "scope payload \<noteq> Some (JStr ''refresh_token'')"
  shows "refresh_token_email a now tok =
           Inl (HTTPException 401 ''Could not validate credentials'' [])"
  using assms by (simp add: refresh_token_email_def refresh_token_try_def split: option.splits)

lemma reset_token_email_wrong_scope:
  assumes "jwt_decode now tok (secret_key a) = Inr payload"
      and "scope payload \<noteq> Some (JStr ''reset_password_token'')"
  shows "reset_token_email a now tok =
           Inl (HTTPException 401 ''Could not validate credentials'' [])"
  using assms by (simp add: reset_token_email_def reset_token_try_def split: option.splits)
text \<open>
  C6. \<^verbatim>\<open>get_email_from_token\<close> never looks at the scope: whenever the library accepts a
  token (signed with the secret, not expired) and its subject is the string \<open>e\<close>, the
  function returns \<open>e\<close>, and \<^verbatim>\<open>confirmed_email\<close> and \<^verbatim>\<open>password_reset_email\<close> go on to
  look \<open>e\<close> up, whatever the scope claim is. The same token is refused by the guard, by
  the refresh handler and by \<^verbatim>\<open>set_new_password\<close> whenever its scope is not the one
  each of them expects.
\<close>

theorem email_path_ignores_scope:
  assumes dec: "jwt_decode now tok (secret_key a) = Inr payload"
      and subj: "sub payload = Some (JStr e)"
  shows "get_email_from_token a now tok = Inr e
       \<and> confirmed_email a now tok d =
           (case get_user_by_email e d of
              None \<Rightarrow> (Inl (HTTPException 400 ''Verification error'' []), d)
            | Some u \<Rightarrow>
                if email_confirm u then (Inr (RMessage ''Your email is already confirmed''), d)
                else (Inr (RMessage ''Email confirmed''), verify_email u d))
       \<and> password_reset_email a now tok d =
           (case get_user_by_email e d of
              None \<Rightarrow> (Inl AttributeError, d)
            | Some u \<Rightarrow>
                (case create_reset_password_token a now (sub_data (email u)) None of
                   Inl err \<Rightarrow> (Inl err, d)
                 | Inr reset_token \<Rightarrow>
                     (Inr (RResetToken reset_token),
                      update_reset_token u (Some reset_token) d)))
       \<and> (scope payload \<noteq> Some (JStr ''access_token'') \<longrightarrow>
            get_current_user a now tok r d = (Inl credentials_exception, r))
       \<and> (scope payload \<noteq> Some (JStr ''refresh_token'') \<longrightarrow>
            refresh_token_route a now tok d =
              (Inl (HTTPException 401 ''Could not validate credentials'' []), d))
       \<and> (scope payload \<noteq> Some (JStr ''reset_password_token'') \<longrightarrow>
            set_new_password a now salt
                \<lparr>reset_password_token = tok, new_password = p1, confirm_password = p2\<rparr> d =
              (Inl (HTTPException 401 ''Could not validate credentials'' []), d))"
proof -
  have em: "get_email_from_token a now tok = Inr e"
    using dec subj by (rule get_email_from_token_any_scope)
  have c: "confirmed_email a now tok d =
           (case get_user_by_email e d of
              None \<Rightarrow> (Inl (HTTPException 400 ''Verification error'' []), d)
            | Some u \<Rightarrow>
                if email_confirm u then (Inr (RMessage ''Your email is already confirmed''), d)
                else (Inr (RMessage ''Email confirmed''), verify_email u d))"
    by (simp add: confirmed_email_def em)
  have p: "password_reset_email a now tok d =
           (case get_user_by_email e d of
              None \<Rightarrow> (Inl AttributeError, d)
            | Some u \<Rightarrow>
                (case create_reset_password_token a now (sub_data (email u)) None of
                   Inl err \<Rightarrow> (Inl err, d)
                 | Inr reset_token \<Rightarrow>
                     (Inr (RResetToken reset_token),
                      update_reset_token u (Some reset_token) d)))"
    by (simp add: password_reset_email_def em Let_def split: option.splits)
  have g: "get_current_user a now tok r d = (Inl credentials_exception, r)"
    if "scope payload \<noteq> Some (JStr ''access_token'')"
    using current_user_email_wrong_scope [OF dec that] by (simp add: get_current_user_def)
  have f: "refresh_token_route a now tok d =
              (Inl (HTTPException 401 ''Could not validate credentials'' []), d)"
    if "scope payload \<noteq> Some (JStr ''refresh_token'')"
    using refresh_token_email_wrong_scope [OF dec that] by (simp add: refresh_token_route_def)
  have s: "set_new_password a now salt
                \<lparr>reset_password_token = tok, new_password = p1, confirm_password = p2\<rparr> d =
              (Inl (HTTPException 401 ''Could not validate credentials'' []), d)"
    if "scope payload \<noteq> Some (JStr ''reset_password_token'')"
    using reset_token_email_wrong_scope [OF dec that] by (simp add: set_new_password_def)
  show ?thesis using em c p g f s by blast
qed

theorem email_path_ignores_scope_witness:
  "jwt_decode (seconds 100) (demo_access 0) (secret_key demo_app) = Inr (demo_payload 0)
   \<and> sub (demo_payload 0) = Some (JStr ''a@x.com'')
   \<and> get_email_from_token demo_app (seconds 100) (demo_access 0) = Inr ''a@x.com''
   \<and> confirmed_email demo_app (seconds 100) (demo_access 0) [demo_new False]
       = (Inr (RMessage ''Email confirmed''), [demo_new True])
   \<and> password_reset_email demo_app (seconds 100) (demo_access 0) [demo_user None None]
       = (Inr (RResetToken (demo_reset 100)), [demo_user None (Some (demo_reset 100))])
   \<and> refresh_token_route demo_app (seconds 100) (demo_access 0) [demo_user None None]
       = (Inl (HTTPException 401 ''Could not validate credentials'' []), [demo_user None None])
   \<and> set_new_password demo_app (seconds 100) ''$2b$''
         \<lparr>reset_password_token = demo_access 0, new_password = ''n'', confirm_password = ''n''\<rparr>
         [demo_user None None]
       = (Inl (HTTPException 401 ''Could not validate credentials'' []), [demo_user None None])"
proof -
  have dec: "jwt_decode (seconds 100) (demo_access 0) (secret_key demo_app) = Inr (demo_payload 0)"
    by (simp add: demo_payload_def token_defs demo_defs)
  have subj: "sub (demo_payload 0) = Some (JStr ''a@x.com'')"
    by (simp add: demo_payload_def)
  have sc: "scope (demo_payload 0) \<noteq> Some (JStr ''refresh_token'')"
       "scope (demo_payload 0) \<noteq> Some (JStr ''reset_password_token'')"
    by (simp_all add: demo_payload_def)
  have u1: "get_user_by_email ''a@x.com'' [demo_new False] = Some (demo_new False)"
    by (simp add: repo_defs demo_new_def demo_user_def)
  have v1: "verify_email (demo_new False) [demo_new False] = [demo_new True]"
       "\<not> email_confirm (demo_new False)"
    by (simp_all add: repo_defs demo_new_def demo_user_def)
  have u2: "get_user_by_email ''a@x.com'' [demo_user None None] = Some (demo_user None None)"
    by (simp add: repo_defs demo_user_def)
  have v2: "update_reset_token (demo_user None None) (Some (demo_reset 100)) [demo_user None None]
      = [demo_user None (Some (demo_reset 100))]"
       "email (demo_user None None) = ''a@x.com''"
    by (simp_all add: repo_defs demo_user_def)
  have r: "create_reset_password_token demo_app (seconds 100) (sub_data ''a@x.com'') None
      = Inr (demo_reset 100)"
    by (simp add: token_defs demo_defs)
  note inst = email_path_ignores_scope [OF dec subj]
  show ?thesis
    using dec subj sc inst [of "[demo_new False]"] inst [of "[demo_user None None]"]
    by (simp add: u1 v1 u2 v2 r)
qed

section \<open>The route guard\<close>

lemma current_user_try_fails_iff:
  "(\<exists>err. current_user_try a now tok = Inl err) \<longleftrightarrow>
     (case tok of
        Malformed s \<Rightarrow> True
      | Signed k p spelling \<Rightarrow>
          k \<noteq> secret_key a \<or> (\<exists>x. exp p = Some x \<and> x < timegm now)
          \<or> scope p \<noteq> Some (JStr ''access_token'') \<or> (\<forall>e. sub p \<noteq> Some (JStr e)))"
  unfolding current_user_try_def
  by (cases tok) (auto split: option.splits jval.splits)
text \<open>
  C8. The \<^verbatim>\<open>try\<close> block of \<^verbatim>\<open>get_current_user\<close> fails exactly for text that is no token,
  a token signed with another key, an expired token, a scope that is missing or not
  \<open>access_token\<close>, and a subject that is missing or not a string. In every one of these
  cases the guard returns the one \<open>credentials_exception\<close> (401, \<open>Could not validate
  credentials\<close>) and leaves the cache as it is.
\<close>

theorem authorize_decode_failure_generic:
  "((\<exists>err. current_user_try a now tok = Inl err) \<longleftrightarrow>
     (case tok of
        Malformed s \<Rightarrow> True
      | Signed k p spelling \<Rightarrow>
          k \<noteq> secret_key a \<or> (\<exists>x. exp p = Some x \<and> x < timegm now)
          \<or> scope p \<noteq> Some (JStr ''access_token'') \<or> (\<forall>e. sub p \<noteq> Some (JStr e))))
   \<and> ((\<exists>err. current_user_try a now tok = Inl err) \<longrightarrow>
         get_current_user a now tok r d = (Inl credentials_exception, r))"
proof
  show "(\<exists>err. current_user_try a now tok = Inl err) \<longleftrightarrow>
     (case tok of
        Malformed s \<Rightarrow> True
      | Signed k p spelling \<Rightarrow>
          k \<noteq> secret_key a \<or> (\<exists>x. exp p = Some x \<and> x < timegm now)
          \<or> scope p \<noteq> Some (JStr ''access_token'') \<or> (\<forall>e. sub p \<noteq> Some (JStr e)))"
    by (rule current_user_try_fails_iff)
  show "(\<exists>err. current_user_try a now tok = Inl err) \<longrightarrow>
         get_current_user a now tok r d = (Inl credentials_exception, r)"
    by (auto simp: get_current_user_def current_user_email_def)
qed

theorem authorize_decode_failure_generic_witness:
  "get_current_user demo_app (seconds 100) (Malformed ''not.a.token'') Map.empty [demo_user None None]
     = (Inl credentials_exception, Map.empty)
   \<and> get_current_user demo_app (seconds 100) (Signed ''forged'' (demo_payload 0) 0) Map.empty
       [demo_user None None] = (Inl credentials_exception, Map.empty)
   \<and> get_current_user demo_app (seconds 1801) (demo_access 0) Map.empty [demo_user None None]
     = (Inl credentials_exception, Map.empty)
   \<and> get_current_user demo_app (seconds 100) (demo_refresh 0) Map.empty [demo_user None None]
     = (Inl credentials_exception, Map.empty)
   \<and> get_current_user demo_app (seconds 100) no_subject Map.empty [demo_user None None]
     = (Inl credentials_exception, Map.empty)"
proof -
  note inst = authorize_decode_failure_generic
    [of demo_app _ _ Map.empty "[demo_user None None]", THEN conjunct2, rule_format]
  have "\<exists>err. current_user_try demo_app (seconds 100) (Malformed ''not.a.token'') = Inl err"
    by (simp add: current_user_try_def)
  moreover have "\<exists>err. current_user_try demo_app (seconds 100) (Signed ''forged'' (demo_payload 0) 0) = Inl err"
    by (simp add: current_user_try_def demo_app_def)
  moreover have "\<exists>err. current_user_try demo_app (seconds 1801) (demo_access 0) = Inl err"
    by (simp add: current_user_try_def token_defs demo_defs)
  moreover have "\<exists>err. current_user_try demo_app (seconds 100) (demo_refresh 0) = Inl err"
    by (simp add: current_user_try_def token_defs demo_defs)
  moreover have "\<exists>err. current_user_try demo_app (seconds 100) no_subject = Inl err"
    by (simp add: current_user_try_def no_subject_def demo_defs)
  ultimately show ?thesis
    by (simp add: inst)
qed

lemma guard_missing_row:
  assumes "current_user_email a now tok = Inr e" and "r_get now r e = None"
      and "get_user_by_email e d = None"
  shows "get_current_user a now tok r d = (Inl AttributeError, r)"
  using assms by (simp add: get_current_user_def)

text \<open>
  C7. The guard is given a valid access token for an email that is neither cached nor in
  the table: the row lookup returns \<open>None\<close>, and reading its \<open>id\<close> raises
  \<open>AttributeError\<close> before the test that would raise \<open>credentials_exception\<close>.
\<close>

theorem get_current_user_unknown_email:
  "create_access_token demo_app (seconds 0) (sub_data ''ghost@x.com'') None = Inr ghost_access
   \<and> current_user_email demo_app (seconds 100) ghost_access = Inr ''ghost@x.com''
   \<and> get_current_user demo_app (seconds 100) ghost_access Map.empty [demo_user None None]
       = (Inl AttributeError, Map.empty)"
  by (simp add: get_current_user_def r_get_def ghost_access_def decode_defs token_defs
      demo_defs repo_defs)

section \<open>Handlers that meet no identity\<close>

text \<open>
  C10. When the presented token decodes to an email that has no row, the refresh
  handler, \<^verbatim>\<open>password_reset_email\<close> and \<^verbatim>\<open>set_new_password\<close> each read an attribute of
  \<open>None\<close>: the result is \<open>AttributeError\<close>, not an \<open>HTTPException\<close>, and the table is
  returned as it was.
\<close>

theorem missing_identity_attribute_error:
  "(refresh_token_email a now tok = Inr e \<and> get_user_by_email e d = None \<longrightarrow>
      refresh_token_route a now tok d = (Inl AttributeError, d))
   \<and> (get_email_from_token a now tok = Inr e \<and> get_user_by_email e d = None \<longrightarrow>
      password_reset_email a now tok d = (Inl AttributeError, d))
   \<and> (reset_token_email a now (reset_password_token rq) = Inr e
        \<and> get_user_by_email e d = None \<longrightarrow>
      set_new_password a now salt rq d = (Inl AttributeError, d))"
  by (simp add: refresh_token_route_def password_reset_email_def set_new_password_def)

theorem missing_identity_attribute_error_witness:
  "refresh_token_route demo_app (seconds 100) ghost_refresh [demo_user None None]
     = (Inl AttributeError, [demo_user None None])
   \<and> password_reset_email demo_app (seconds 100) ghost_refresh [demo_user None None]
     = (Inl AttributeError, [demo_user None None])
   \<and> set_new_password demo_app (seconds 100) ''$2b$''
       \<lparr>reset_password_token = ghost_reset, new_password = ''n'', confirm_password = ''n''\<rparr>
       [demo_user None None]
     = (Inl AttributeError, [demo_user None None])"
proof -
  have d1: "refresh_token_email demo_app (seconds 100) ghost_refresh = Inr ''ghost@x.com''"
    by (simp add: ghost_refresh_def decode_defs token_defs demo_defs)
  have d2: "get_email_from_token demo_app (seconds 100) ghost_refresh = Inr ''ghost@x.com''"
    by (simp add: ghost_refresh_def decode_defs token_defs demo_defs)
  have d3: "reset_token_email demo_app (seconds 100) ghost_reset = Inr ''ghost@x.com''"
    by (simp add: ghost_reset_def decode_defs token_defs demo_defs)
  have none: "get_user_by_email ''ghost@x.com'' [demo_user None None] = None"
    by (simp add: repo_defs demo_user_def)
  show ?thesis
    using missing_identity_attribute_error [of demo_app "seconds 100" ghost_refresh "''ghost@x.com''"
        "[demo_user None None]"
        "\<lparr>reset_password_token = ghost_reset, new_password = ''n'', confirm_password = ''n''\<rparr>"
        "''$2b$''"]
      d1 d2 d3 none
    by simp
qed

end
